theory Spec2Isabelle
  imports Main "HOL-Library.AList"
begin

section \<open>JavaScript data values\<close>

text \<open>
  The SDK (\<^verbatim>\<open>src/playpath-sdk.js\<close>) handles plain data: what \<^verbatim>\<open>JSON.parse\<close> returns,
  what callers write as object and array literals, and \<^verbatim>\<open>undefined\<close>. The SDK computes
  with no number: it tests one for truth, converts it to a string, serialises it or
  passes it on. A number is therefore represented by the text that the engine's
  \<^verbatim>\<open>Number.prototype.toString\<close> gives for it, which determines all of these:
  \<^verbatim>\<open>404\<close>, \<^verbatim>\<open>-3\<close>, \<^verbatim>\<open>1.5\<close>, \<^verbatim>\<open>1e+21\<close>, \<^verbatim>\<open>0\<close> (for both zeros), \<^verbatim>\<open>NaN\<close>,
  \<^verbatim>\<open>Infinity\<close>, \<^verbatim>\<open>-Infinity\<close>. An object is the list of its own properties in insertion
  order, with distinct keys, its prototype is \<^verbatim>\<open>Object.prototype\<close>, and no value is a
  function; a lookup of a key that is not there gives \<^verbatim>\<open>undefined\<close>.
\<close>

datatype jsval =
    Undefined
  | Null
  | Bool bool
  | Num string
  | Str string
  | Arr "jsval list"
  | Obj "(string \<times> jsval) list"

text \<open>Truthiness, as tested by \<^verbatim>\<open>!x\<close>, \<^verbatim>\<open>if (x)\<close> and \<^verbatim>\<open>x || y\<close>: the falsy numbers
  are the zeros and \<^verbatim>\<open>NaN\<close>.\<close>

fun truthy :: "jsval \<Rightarrow> bool" where
  "truthy Undefined = False"
| "truthy Null = False"
| "truthy (Bool b) = b"
| "truthy (Num t) = (t \<noteq> ''0'' \<and> t \<noteq> ''NaN'')"
| "truthy (Str s) = (s \<noteq> [])"
| "truthy (Arr xs) = True"
| "truthy (Obj fs) = True"

text \<open>\<^verbatim>\<open>a || b\<close> on data values (reading a property of plain data has no effect).\<close>

definition js_or :: "jsval \<Rightarrow> jsval \<Rightarrow> jsval" where
  "js_or a b = (if truthy a then a else b)"

text \<open>Errors of the language itself, with the \<^verbatim>\<open>name\<close> and \<^verbatim>\<open>message\<close> they carry.\<close>

datatype js_error = JsError (error_name: string) (error_message: string)

text \<open>
  The error value of the SDK: \<^verbatim>\<open>class PlayPathError extends Error\<close> with
  \<^verbatim>\<open>constructor(message, status = null, data = null)\<close>. The payload \<^verbatim>\<open>data\<close> is a
  data value (\<^verbatim>\<open>null\<close> by default) or the error that was caught.
\<close>

datatype payload = Data jsval | Cause js_error

record PlayPathError =
  message :: string
  status :: "int option"
  data :: payload

text \<open>What a call can throw (or reject its promise with).\<close>

datatype thrown = SdkError PlayPathError | NativeError js_error

text \<open>
  Decimal rendering of an HTTP status in a template literal. A status is an integer
  from 0 to 999, for which these digits are what the engine prints.
\<close>

fun string_of_nat :: "nat \<Rightarrow> string" where
  "string_of_nat n =
     (if n < 10 then [''0123456789'' ! n]
      else string_of_nat (n div 10) @ [''0123456789'' ! (n mod 10)])"

declare string_of_nat.simps [simp del]

definition string_of_int :: "int \<Rightarrow> string" where
  "string_of_int i =
     (if i < 0 then CHR ''-'' # string_of_nat (nat (- i)) else string_of_nat (nat i))"

fun join :: "string \<Rightarrow> string list \<Rightarrow> string" where
  "join sep [] = []"
| "join sep [x] = x"
| "join sep (x # y # ys) = x @ sep @ join sep (y # ys)"

text \<open>
  String conversion, which the \<^verbatim>\<open>Error\<close> constructor applies to its message and a
  template literal to its holes. An array joins the conversions of its elements with
  commas, from left to right, \<^verbatim>\<open>null\<close> and \<^verbatim>\<open>undefined\<close> elements giving the empty
  string. An object is converted by its \<^verbatim>\<open>toString\<close> method: the inherited one gives
  \<^verbatim>\<open>[object Object]\<close>; an own property \<^verbatim>\<open>toString\<close> hides it and is not callable, the
  inherited \<^verbatim>\<open>valueOf\<close> (or an own one, not callable) gives no primitive either, and the
  conversion throws a \<^verbatim>\<open>TypeError\<close> (the wording is the one of V8).
\<close>

definition cannot_convert :: js_error where
  "cannot_convert = JsError ''TypeError'' ''Cannot convert object to primitive value''"

fun ToString :: "jsval \<Rightarrow> js_error + string"
  and ToString_elements :: "jsval list \<Rightarrow> js_error + string list" where
  "ToString Undefined = Inr ''undefined''"
| "ToString Null = Inr ''null''"
| "ToString (Bool b) = Inr (if b then ''true'' else ''false'')"
| "ToString (Num t) = Inr t"
| "ToString (Str s) = Inr s"
| "ToString (Arr xs) =
     (case ToString_elements xs of Inl e \<Rightarrow> Inl e | Inr ts \<Rightarrow> Inr (join '','' ts))"
| "ToString (Obj fs) =
     (case map_of fs ''toString'' of
        None \<Rightarrow> Inr ''[object Object]''
      | Some v \<Rightarrow> Inl cannot_convert)"
| "ToString_elements [] = Inr []"
| "ToString_elements (x # xs) =
     (case (if x = Undefined \<or> x = Null then Inr [] else ToString x) of
        Inl e \<Rightarrow> Inl e
      | Inr t \<Rightarrow>
          (case ToString_elements xs of Inl e \<Rightarrow> Inl e | Inr ts \<Rightarrow> Inr (t # ts)))"

text \<open>
  Reading a property \<^verbatim>\<open>v.k\<close>. On \<^verbatim>\<open>null\<close> and \<^verbatim>\<open>undefined\<close> the read throws a
  \<^verbatim>\<open>TypeError\<close> (the wording of the message is the engine's; this is the one of V8).
  The SDK reads \<^verbatim>\<open>message\<close>, \<^verbatim>\<open>history\<close>, \<^verbatim>\<open>system_prompt\<close>, \<^verbatim>\<open>title\<close>, \<^verbatim>\<open>text\<close>,
  \<^verbatim>\<open>role\<close>, \<^verbatim>\<open>content\<close>, \<^verbatim>\<open>reply\<close> and \<^verbatim>\<open>error\<close>: none of them is a property of a
  string, a number, a boolean or an array, nor of \<^verbatim>\<open>Object.prototype\<close>, where the read
  gives \<^verbatim>\<open>undefined\<close>.
\<close>

definition cannot_read :: "jsval \<Rightarrow> string \<Rightarrow> js_error" where
  "cannot_read v k =
     JsError ''TypeError''
       (''Cannot read properties of '' @ (if v = Null then ''null'' else ''undefined'')
          @ '' (reading '' @ [CHR 0x27] @ k @ [CHR 0x27] @ '')'')"

fun get_prop :: "jsval \<Rightarrow> string \<Rightarrow> thrown + jsval" where
  "get_prop Undefined k = Inl (NativeError (cannot_read Undefined k))"
| "get_prop Null k = Inl (NativeError (cannot_read Null k))"
| "get_prop (Obj fs) k = Inr (case map_of fs k of None \<Rightarrow> Undefined | Some v \<Rightarrow> v)"
| "get_prop v k = Inr Undefined"

text \<open>
  \<^verbatim>\<open>JSON.stringify\<close>. The text it produces is represented by the JSON document that the
  text denotes: a property whose value is \<^verbatim>\<open>undefined\<close> is left out; an \<^verbatim>\<open>undefined\<close>
  array element, \<^verbatim>\<open>NaN\<close> and the infinities become \<^verbatim>\<open>null\<close>. For \<^verbatim>\<open>undefined\<close>
  itself the result is \<^verbatim>\<open>undefined\<close>, no text.
\<close>

fun JSON_value :: "jsval \<Rightarrow> jsval"
  and JSON_elements :: "jsval list \<Rightarrow> jsval list"
  and JSON_members :: "(string \<times> jsval) list \<Rightarrow> (string \<times> jsval) list" where
  "JSON_value (Arr xs) = Arr (JSON_elements xs)"
| "JSON_value (Obj fs) = Obj (JSON_members fs)"
| "JSON_value (Num t) =
     (if t = ''NaN'' \<or> t = ''Infinity'' \<or> t = ''-Infinity'' then Null else Num t)"
| "JSON_value v = v"
| "JSON_elements [] = []"
| "JSON_elements (x # xs) = (if x = Undefined then Null else JSON_value x) # JSON_elements xs"
| "JSON_members [] = []"
| "JSON_members ((k, v) # fs) =
     (if v = Undefined then JSON_members fs else (k, JSON_value v) # JSON_members fs)"

definition JSON_stringify :: "jsval \<Rightarrow> jsval option" where
  "JSON_stringify v = (if v = Undefined then None else Some (JSON_value v))"

section \<open>Transport\<close>

text \<open>
  The client object: \<^verbatim>\<open>this.baseUrl\<close>, \<^verbatim>\<open>this.apiKey\<close>, \<^verbatim>\<open>this.headers\<close>.
\<close>

record PlayPathSDK =
  baseUrl :: string
  apiKey :: string
  headers :: "(string \<times> string) list"

text \<open>
  The \<^verbatim>\<open>options\<close> the SDK's methods pass to \<^verbatim>\<open>_request\<close> hold a method and a body and
  nothing else; the two arguments of \<^verbatim>\<open>fetch(url, config)\<close> make a request.
\<close>

record options =
  opt_method :: "string option"
  opt_body :: "jsval option"

record request =
  req_url :: string
  req_method :: "string option"
  req_headers :: "(string \<times> string) list"
  req_body :: "jsval option"

text \<open>
  What \<^verbatim>\<open>await fetch(url, config)\<close> followed by \<^verbatim>\<open>await response.json()\<close> can do:
  \<^verbatim>\<open>fetch\<close> rejects (no response), or a response with a status arrives and its body
  fails to parse, or it parses. \<^verbatim>\<open>response.ok\<close> holds for the statuses 200 to 299.
\<close>

datatype fetch_outcome =
    Rejected js_error
  | Unparseable int js_error
  | Response int jsval

definition response_ok :: "int \<Rightarrow> bool" where
  "response_ok st = (200 \<le> st \<and> st \<le> 299)"

text \<open>
  The remote API is a black box: any function from the requests issued so far and
  the current request to an outcome. Every network call is logged, so that ``no network
  call'' is ``the log did not grow''.
\<close>

type_synonym backend = "request list \<Rightarrow> request \<Rightarrow> fetch_outcome"

text \<open>
  \<^verbatim>\<open>_request(endpoint, options)\<close>, lines 48 to 74, here \<open>sdk_request\<close>. On a
  non-success status the \<^verbatim>\<open>PlayPathError\<close> is built inside the \<^verbatim>\<open>try\<close>: its message is
  \<^verbatim>\<open>data.error\<close> or the generic text, converted to a string by \<^verbatim>\<open>super(message)\<close>.
  The \<^verbatim>\<open>PlayPathError\<close> is rethrown as it is; anything else that was thrown inside the
  \<^verbatim>\<open>try\<close>, also the \<^verbatim>\<open>TypeError\<close> of \<^verbatim>\<open>data.error\<close> on a \<^verbatim>\<open>null\<close> body and the one of
  a message that does not convert to a string, is wrapped with a \<^verbatim>\<open>null\<close> status.
\<close>

definition wrap_failure :: "js_error \<Rightarrow> thrown" where
  "wrap_failure e = SdkError \<lparr>message = error_message e, status = None, data = Cause e\<rparr>"

definition request_of :: "PlayPathSDK \<Rightarrow> string \<Rightarrow> options \<Rightarrow> request" where
  "request_of sdk endpoint opts =
     \<lparr>req_url = baseUrl sdk @ endpoint, req_method = opt_method opts,
      req_headers = headers sdk, req_body = opt_body opts\<rparr>"

definition settle :: "fetch_outcome \<Rightarrow> thrown + jsval" where
  "settle out =
     (case out of
        Rejected e \<Rightarrow> Inl (wrap_failure e)
      | Unparseable st e \<Rightarrow> Inl (wrap_failure e)
      | Response st body \<Rightarrow>
          if \<not> response_ok st then
            (case get_prop body ''error'' of
               Inl (NativeError e) \<Rightarrow> Inl (wrap_failure e)
             | Inl (SdkError e) \<Rightarrow> Inl (SdkError e)
             | Inr err \<Rightarrow>
                 (case ToString (js_or err (Str (''HTTP '' @ string_of_int st))) of
                    Inl e \<Rightarrow> Inl (wrap_failure e)
                  | Inr text \<Rightarrow>
                      Inl (SdkError \<lparr>message = text, status = Some st, data = Data body\<rparr>)))
          else Inr body)"

definition sdk_request :: "backend \<Rightarrow> PlayPathSDK \<Rightarrow> request list \<Rightarrow> string \<Rightarrow> options
    \<Rightarrow> (thrown + jsval) \<times> request list" where
  "sdk_request srv sdk log endpoint opts =
     (let req = request_of sdk endpoint opts
      in (settle (srv log req), log @ [req]))"

section \<open>Resource clients\<close>

definition no_options :: options where
  "no_options = \<lparr>opt_method = None, opt_body = None\<rparr>"

definition validation_error :: "string \<Rightarrow> thrown" where
  "validation_error text = SdkError \<lparr>message = text, status = Some 400, data = Data Null\<rparr>"

text \<open>\<^verbatim>\<open>ragChat(params)\<close>, lines 88 to 109.\<close>

definition chat_payload :: "jsval \<Rightarrow> jsval \<Rightarrow> jsval \<Rightarrow> jsval" where
  "chat_payload msg hist prompt =
     Obj ([(''message'', msg)]
          @ (if truthy hist then [(''history'', hist)] else [])
          @ (if truthy prompt then [(''system_prompt'', prompt)] else []))"

definition ragChat :: "backend \<Rightarrow> PlayPathSDK \<Rightarrow> request list \<Rightarrow> jsval
    \<Rightarrow> (thrown + jsval) \<times> request list" where
  "ragChat srv sdk log params =
     (case get_prop params ''message'' of
        Inl e \<Rightarrow> (Inl e, log)
      | Inr msg \<Rightarrow>
          if \<not> truthy msg then (Inl (validation_error ''Message is required''), log)
          else
            (case get_prop params ''history'' of
               Inl e \<Rightarrow> (Inl e, log)
             | Inr hist \<Rightarrow>
                 (case get_prop params ''system_prompt'' of
                    Inl e \<Rightarrow> (Inl e, log)
                  | Inr prompt \<Rightarrow>
                      sdk_request srv sdk log ''/api/rag/chat''
                        \<lparr>opt_method = Some ''POST'',
                         opt_body = JSON_stringify (chat_payload msg hist prompt)\<rparr>)))"

text \<open>The items API, lines 119 to 174. The path is a template literal; when the
  identifier does not convert to a string the call throws before any request.\<close>

definition getItems :: "backend \<Rightarrow> PlayPathSDK \<Rightarrow> request list
    \<Rightarrow> (thrown + jsval) \<times> request list" where
  "getItems srv sdk log = sdk_request srv sdk log ''/api/items'' no_options"

definition getItem :: "backend \<Rightarrow> PlayPathSDK \<Rightarrow> request list \<Rightarrow> jsval
    \<Rightarrow> (thrown + jsval) \<times> request list" where
  "getItem srv sdk log ident =
     (case ToString ident of
        Inl e \<Rightarrow> (Inl (NativeError e), log)
      | Inr text \<Rightarrow> sdk_request srv sdk log (''/api/items/'' @ text) no_options)"

definition createItem :: "backend \<Rightarrow> PlayPathSDK \<Rightarrow> request list \<Rightarrow> jsval
    \<Rightarrow> (thrown + jsval) \<times> request list" where
  "createItem srv sdk log item =
     (case get_prop item ''title'' of
        Inl e \<Rightarrow> (Inl e, log)
      | Inr title \<Rightarrow>
          (case get_prop item ''text'' of
             Inl e \<Rightarrow> (Inl e, log)
           | Inr txt \<Rightarrow>
               if \<not> truthy title \<and> \<not> truthy txt
               then (Inl (validation_error ''Either title or text is required''), log)
               else sdk_request srv sdk log ''/api/items''
                      \<lparr>opt_method = Some ''POST'', opt_body = JSON_stringify item\<rparr>))"

definition updateItem :: "backend \<Rightarrow> PlayPathSDK \<Rightarrow> request list \<Rightarrow> jsval \<Rightarrow> jsval
    \<Rightarrow> (thrown + jsval) \<times> request list" where
  "updateItem srv sdk log ident item =
     (case ToString ident of
        Inl e \<Rightarrow> (Inl (NativeError e), log)
      | Inr text \<Rightarrow>
          sdk_request srv sdk log (''/api/items/'' @ text)
            \<lparr>opt_method = Some ''PUT'', opt_body = JSON_stringify item\<rparr>)"

definition deleteItem :: "backend \<Rightarrow> PlayPathSDK \<Rightarrow> request list \<Rightarrow> jsval
    \<Rightarrow> (thrown + jsval) \<times> request list" where
  "deleteItem srv sdk log ident =
     (case ToString ident of
        Inl e \<Rightarrow> (Inl (NativeError e), log)
      | Inr text \<Rightarrow>
          sdk_request srv sdk log (''/api/items/'' @ text)
            \<lparr>opt_method = Some ''DELETE'', opt_body = None\<rparr>)"

section \<open>History formatting\<close>

text \<open>
  \<^verbatim>\<open>formatChatHistory(messages)\<close>, lines 185 to 190. The callback reads
  \<^verbatim>\<open>msg.role\<close> first, so on a \<^verbatim>\<open>null\<close> or \<^verbatim>\<open>undefined\<close> element that read throws;
  \<^verbatim>\<open>messages.map\<close> is a function only when \<^verbatim>\<open>messages\<close> is an array.
\<close>

definition format_message :: "jsval \<Rightarrow> thrown + jsval" where
  "format_message msg =
     (case get_prop msg ''role'' of
        Inl e \<Rightarrow> Inl e
      | Inr role \<Rightarrow>
          (case get_prop msg ''text'' of
             Inl e \<Rightarrow> Inl e
           | Inr txt \<Rightarrow>
               (case get_prop msg ''message'' of
                  Inl e \<Rightarrow> Inl e
                | Inr mes \<Rightarrow>
                    (case get_prop msg ''content'' of
                       Inl e \<Rightarrow> Inl e
                     | Inr con \<Rightarrow>
                         Inr (Obj [(''role'', js_or role (Str ''user'')),
                                   (''text'', js_or txt (js_or mes (js_or con (Str ''''))))])))))"

fun map_throwing :: "('a \<Rightarrow> thrown + 'b) \<Rightarrow> 'a list \<Rightarrow> thrown + 'b list" where
  "map_throwing f [] = Inr []"
| "map_throwing f (x # xs) =
     (case f x of
        Inl e \<Rightarrow> Inl e
      | Inr y \<Rightarrow> (case map_throwing f xs of Inl e \<Rightarrow> Inl e | Inr ys \<Rightarrow> Inr (y # ys)))"

definition not_a_function :: "string \<Rightarrow> js_error" where
  "not_a_function what = JsError ''TypeError'' (what @ '' is not a function'')"

fun formatChatHistory :: "jsval \<Rightarrow> thrown + jsval" where
  "formatChatHistory (Arr xs) =
     (case map_throwing format_message xs of Inl e \<Rightarrow> Inl e | Inr ys \<Rightarrow> Inr (Arr ys))"
| "formatChatHistory Undefined = Inl (NativeError (cannot_read Undefined ''map''))"
| "formatChatHistory Null = Inl (NativeError (cannot_read Null ''map''))"
| "formatChatHistory v = Inl (NativeError (not_a_function ''messages.map''))"

text \<open>
  The method as a call on the client, in the shape of the other methods: it is given
  the client and the log of network calls and returns them with its result. The body
  of \<^verbatim>\<open>formatChatHistory\<close> reads its argument and nothing else, it does not touch
  \<^verbatim>\<open>this\<close> and issues no request.
\<close>

definition formatChatHistory_method :: "PlayPathSDK \<Rightarrow> request list \<Rightarrow> jsval
    \<Rightarrow> (thrown + jsval) \<times> PlayPathSDK \<times> request list" where
  "formatChatHistory_method sdk log messages = (formatChatHistory messages, sdk, log)"

section \<open>Chat session\<close>

text \<open>
  \<^verbatim>\<open>createChatSession\<close>, lines 197 to 246, closes over the array \<^verbatim>\<open>history\<close> and the
  variable \<^verbatim>\<open>systemPrompt\<close>. Arrays of turns and the turn objects have an identity: they
  live in a store, a list of cells indexed by address, where a new cell is put at the
  end. An array cell holds the addresses of its elements; an object cell holds its
  properties, whose values are data.
\<close>

type_synonym addr = nat

datatype cell = Array "addr list" | Object "(string \<times> jsval) list"

type_synonym heap = "cell list"

definition alloc :: "heap \<Rightarrow> cell \<Rightarrow> addr \<times> heap" where
  "alloc h c = (length h, h @ [c])"

text \<open>The elements of the array at an address, and the object at an address, as
  they are read; the arrays of a session hold addresses of objects only.\<close>

definition elements :: "heap \<Rightarrow> addr \<Rightarrow> addr list" where
  "elements h a =
     (if a < length h then (case h ! a of Array rs \<Rightarrow> rs | Object fs \<Rightarrow> []) else [])"

definition object_at :: "heap \<Rightarrow> addr \<Rightarrow> jsval" where
  "object_at h r =
     (if r < length h then (case h ! r of Object fs \<Rightarrow> Obj fs | Array rs \<Rightarrow> Undefined)
      else Undefined)"

text \<open>The turn sequence that an array denotes at this moment.\<close>

definition turns :: "heap \<Rightarrow> addr \<Rightarrow> jsval list" where
  "turns h a = map (object_at h) (elements h a)"

text \<open>The spread copy of an array (a new array with the same elements), \<^verbatim>\<open>push\<close>,
  and \<^verbatim>\<open>length = 0\<close>.\<close>

definition spread :: "heap \<Rightarrow> addr \<Rightarrow> addr \<times> heap" where
  "spread h a = alloc h (Array (elements h a))"

definition push :: "heap \<Rightarrow> addr \<Rightarrow> addr \<Rightarrow> heap" where
  "push h a r = h[a := Array (elements h a @ [r])]"

definition truncate_all :: "heap \<Rightarrow> addr \<Rightarrow> heap" where
  "truncate_all h a = h[a := Array []]"

text \<open>What a holder of an address can do to the store: replace what an array holds
  (assign an index, push, pop, splice, sort, set the length), or assign a property of
  an object.\<close>

definition overwrite_array :: "heap \<Rightarrow> addr \<Rightarrow> addr list \<Rightarrow> heap" where
  "overwrite_array h a rs = h[a := Array rs]"

definition assign_prop :: "heap \<Rightarrow> addr \<Rightarrow> string \<Rightarrow> jsval \<Rightarrow> heap" where
  "assign_prop h r k v =
     (if r < length h
      then (case h ! r of
              Object fs \<Rightarrow> h[r := Object (AList.update k v fs)]
            | Array rs \<Rightarrow> h)
      else h)"

record ChatSession =
  history :: addr
  systemPrompt :: jsval

record world =
  store :: heap
  calls :: "request list"

definition createChatSession :: "heap \<Rightarrow> jsval \<Rightarrow> ChatSession \<times> heap" where
  "createChatSession h prompt =
     (let (a, h') = alloc h (Array [])
      in (\<lparr>history = a, systemPrompt = (if prompt = Undefined then Null else prompt)\<rparr>, h'))"

definition user_turn :: "jsval \<Rightarrow> (string \<times> jsval) list" where
  "user_turn msg = [(''role'', Str ''user''), (''text'', msg)]"

definition assistant_turn :: "jsval \<Rightarrow> (string \<times> jsval) list" where
  "assistant_turn reply = [(''role'', Str ''assistant''), (''text'', reply)]"

text \<open>
  \<^verbatim>\<open>sendMessage(message)\<close>, lines 206 to 223. The copy of the history is serialised
  inside \<^verbatim>\<open>ragChat\<close> before anything else runs, so the parameters hold the turn sequence
  the copy denotes. After the \<^verbatim>\<open>await\<close> the user turn is pushed first; the argument of
  the second \<^verbatim>\<open>push\<close> reads \<^verbatim>\<open>response.reply\<close>, which throws on a \<^verbatim>\<open>null\<close> response.
\<close>

definition session_params :: "jsval \<Rightarrow> jsval list \<Rightarrow> jsval \<Rightarrow> jsval" where
  "session_params msg snapshot prompt =
     Obj ([(''message'', msg), (''history'', Arr snapshot)]
          @ (if truthy prompt then [(''system_prompt'', prompt)] else []))"

definition sendMessage :: "backend \<Rightarrow> PlayPathSDK \<Rightarrow> world \<Rightarrow> ChatSession \<Rightarrow> jsval
    \<Rightarrow> (thrown + jsval) \<times> world" where
  "sendMessage srv sdk w s msg =
     (let (copy, h1) = spread (store w) (history s);
          params = session_params msg (turns h1 copy) (systemPrompt s);
          (result, log) = ragChat srv sdk (calls w) params
      in case result of
           Inl e \<Rightarrow> (Inl e, \<lparr>store = h1, calls = log\<rparr>)
         | Inr response \<Rightarrow>
             (let (u, h2) = alloc h1 (Object (user_turn msg));
                  h3 = push h2 (history s) u
              in case get_prop response ''reply'' of
                   Inl e \<Rightarrow> (Inl e, \<lparr>store = h3, calls = log\<rparr>)
                 | Inr reply \<Rightarrow>
                     (let (a, h4) = alloc h3 (Object (assistant_turn reply));
                          h5 = push h4 (history s) a
                      in (Inr response, \<lparr>store = h5, calls = log\<rparr>))))"

definition getHistory :: "heap \<Rightarrow> ChatSession \<Rightarrow> addr \<times> heap" where
  "getHistory h s = spread h (history s)"

definition clearHistory :: "heap \<Rightarrow> ChatSession \<Rightarrow> heap" where
  "clearHistory h s = truncate_all h (history s)"

definition setSystemPrompt :: "ChatSession \<Rightarrow> jsval \<Rightarrow> ChatSession" where
  "setSystemPrompt s prompt = s\<lparr>systemPrompt := prompt\<rparr>"

text \<open>
  A session of this store: its history is an allocated array whose elements are
  allocated objects. \<^verbatim>\<open>createChatSession\<close> makes one and every operation keeps it.
\<close>

definition is_object :: "heap \<Rightarrow> addr \<Rightarrow> bool" where
  "is_object h r = (r < length h \<and> (case h ! r of Object fs \<Rightarrow> True | Array rs \<Rightarrow> False))"

definition session_of :: "heap \<Rightarrow> ChatSession \<Rightarrow> bool" where
  "session_of h s =
     (history s < length h
      \<and> (case h ! history s of
            Array rs \<Rightarrow> list_all (is_object h) rs
          | Object fs \<Rightarrow> False))"

text \<open>
  The two halves of a \<^verbatim>\<open>sendMessage\<close> call, before and after its \<^verbatim>\<open>await\<close> (line 216).
  The first half copies the history, builds the parameters and runs \<^verbatim>\<open>ragChat\<close> up to
  the request; what is pending is the message and what the request will settle to. The
  second half runs when the response has arrived, on the store as it is then; between
  the two halves of one call, halves of other calls may run.
\<close>

record pending =
  pending_message :: jsval
  pending_result :: "thrown + jsval"

definition sendMessage_start :: "backend \<Rightarrow> PlayPathSDK \<Rightarrow> world \<Rightarrow> ChatSession \<Rightarrow> jsval
    \<Rightarrow> pending \<times> world" where
  "sendMessage_start srv sdk w s msg =
     (let (copy, h1) = spread (store w) (history s);
          params = session_params msg (turns h1 copy) (systemPrompt s);
          (result, log) = ragChat srv sdk (calls w) params
      in (\<lparr>pending_message = msg, pending_result = result\<rparr>, \<lparr>store = h1, calls = log\<rparr>))"

definition sendMessage_resume :: "world \<Rightarrow> ChatSession \<Rightarrow> pending
    \<Rightarrow> (thrown + jsval) \<times> world" where
  "sendMessage_resume w s p =
     (case pending_result p of
        Inl e \<Rightarrow> (Inl e, w)
      | Inr response \<Rightarrow>
          (let (u, h2) = alloc (store w) (Object (user_turn (pending_message p)));
               h3 = push h2 (history s) u
           in case get_prop response ''reply'' of
                Inl e \<Rightarrow> (Inl e, w\<lparr>store := h3\<rparr>)
              | Inr reply \<Rightarrow>
                  (let (a, h4) = alloc h3 (Object (assistant_turn reply));
                       h5 = push h4 (history s) a
                   in (Inr response, w\<lparr>store := h5\<rparr>))))"

text \<open>
  A run of calls made one after the other, each awaited before the next is made. A
  failed call does not stop the run; the run yields the result of every call.
\<close>

fun send_each :: "backend \<Rightarrow> PlayPathSDK \<Rightarrow> world \<Rightarrow> ChatSession \<Rightarrow> jsval list
    \<Rightarrow> (thrown + jsval) list \<times> world" where
  "send_each srv sdk w s [] = ([], w)"
| "send_each srv sdk w s (m # ms) =
     (case sendMessage srv sdk w s m of
        (r, w') \<Rightarrow>
          (case send_each srv sdk w' s ms of
             (rs, w'') \<Rightarrow> (r # rs, w'')))"

text \<open>The value of \<^verbatim>\<open>response.reply\<close> for a response that is not \<^verbatim>\<open>null\<close>.\<close>

definition reply_of :: "jsval \<Rightarrow> jsval" where
  "reply_of response = (case get_prop response ''reply'' of Inl e \<Rightarrow> Undefined | Inr v \<Rightarrow> v)"

definition exchange :: "jsval \<Rightarrow> jsval \<Rightarrow> jsval list" where
  "exchange msg response = [Obj (user_turn msg), Obj (assistant_turn (reply_of response))]"

text \<open>The turns that belong to a call with a given result: the exchange of a
  successful call, nothing for a failed one; and the number of successful calls.\<close>

definition exchange_of :: "jsval \<Rightarrow> thrown + jsval \<Rightarrow> jsval list" where
  "exchange_of msg result = (case result of Inl e \<Rightarrow> [] | Inr response \<Rightarrow> exchange msg response)"

definition succeeded :: "(thrown + jsval) list \<Rightarrow> nat" where
  "succeeded rs = length (filter (\<lambda>r. \<not> isl r) rs)"

definition role_of :: "jsval \<Rightarrow> jsval" where
  "role_of turn = (case get_prop turn ''role'' of Inl e \<Rightarrow> Undefined | Inr v \<Rightarrow> v)"

section \<open>Vocabulary of the properties\<close>

text \<open>The value of a property of a record, \<^verbatim>\<open>undefined\<close> when the record has none.\<close>

definition field :: "(string \<times> jsval) list \<Rightarrow> string \<Rightarrow> jsval" where
  "field fs k = (case map_of fs k of None \<Rightarrow> Undefined | Some v \<Rightarrow> v)"

text \<open>The first truthy value of a list, or a default.\<close>

fun first_truthy :: "jsval list \<Rightarrow> jsval \<Rightarrow> jsval" where
  "first_truthy [] d = d"
| "first_truthy (v # vs) d = (if truthy v then v else first_truthy vs d)"

text \<open>
  The normalisation of one record in the words of the specification, where a field
  counts as soon as the record has it: the role is the record's role field when present
  and \<^verbatim>\<open>user\<close> otherwise, the text is the first present field among text, message and
  content, and the empty string when none is.
\<close>

definition spec_turn :: "(string \<times> jsval) list \<Rightarrow> jsval" where
  "spec_turn fs =
     Obj [(''role'', case map_of fs ''role'' of Some r \<Rightarrow> r | None \<Rightarrow> Str ''user''),
          (''text'',
             case map_of fs ''text'' of
               Some t \<Rightarrow> t
             | None \<Rightarrow>
                 (case map_of fs ''message'' of
                    Some m \<Rightarrow> m
                  | None \<Rightarrow>
                      (case map_of fs ''content'' of Some c \<Rightarrow> c | None \<Rightarrow> Str '''')))]"

text \<open>The chat request with a given JSON body, and the members of the body that
  \<^verbatim>\<open>ragChat\<close> builds from a message, a history and a system prompt.\<close>

definition chat_request :: "PlayPathSDK \<Rightarrow> (string \<times> jsval) list \<Rightarrow> request" where
  "chat_request sdk members =
     \<lparr>req_url = baseUrl sdk @ ''/api/rag/chat'', req_method = Some ''POST'',
      req_headers = headers sdk, req_body = Some (Obj members)\<rparr>"

definition chat_members :: "jsval \<Rightarrow> jsval \<Rightarrow> jsval \<Rightarrow> (string \<times> jsval) list" where
  "chat_members msg hist prompt =
     (''message'', JSON_value msg)
     # (if truthy hist then [(''history'', JSON_value hist)] else [])
     @ (if truthy prompt then [(''system_prompt'', JSON_value prompt)] else [])"

text \<open>A client and a mock backend that answers every request the same way, for the
  concrete runs.\<close>

definition demo_sdk :: PlayPathSDK where
  "demo_sdk =
     \<lparr>baseUrl = ''http://localhost:3000'', apiKey = ''key'',
      headers = [(''Content-Type'', ''application/json''), (''X-Api-Key'', ''key'')]\<rparr>"

definition mock_backend :: "fetch_outcome \<Rightarrow> backend" where
  "mock_backend out = (\<lambda>log req. out)"

text \<open>A new session in an empty store, a backend that always replies \<^verbatim>\<open>hello\<close>, one
  that always answers 200 with the body \<^verbatim>\<open>null\<close>, and the world after one exchange.\<close>

definition fresh_session :: ChatSession where
  "fresh_session = fst (createChatSession [] Undefined)"

definition fresh_world :: world where
  "fresh_world = \<lparr>store = snd (createChatSession [] Undefined), calls = []\<rparr>"

definition hello_backend :: backend where
  "hello_backend = mock_backend (Response 200 (Obj [(''reply'', Str ''hello'')]))"

definition null_backend :: backend where
  "null_backend = mock_backend (Response 200 Null)"

definition after_hello :: world where
  "after_hello = snd (sendMessage hello_backend demo_sdk fresh_world fresh_session (Str ''hi''))"

text \<open>A backend that answers the first request with 200 and the body \<^verbatim>\<open>null\<close> and
  every later one with the reply \<^verbatim>\<open>hello\<close>.\<close>

definition null_then_hello :: backend where
  "null_then_hello =
     (\<lambda>log req. if log = [] then Response 200 Null
                 else Response 200 (Obj [(''reply'', Str ''hello'')]))"

text \<open>Two calls of a new session in flight together against the backend that replies
  \<^verbatim>\<open>hello\<close>: both are started, then the response of the second arrives before the one
  of the first. The results of the first and of the second call, and the world after
  both.\<close>

definition overlapped :: "(thrown + jsval) \<times> (thrown + jsval) \<times> world" where
  "overlapped =
     (let (p1, w1) = sendMessage_start hello_backend demo_sdk fresh_world fresh_session
                       (Str ''first'');
          (p2, w2) = sendMessage_start hello_backend demo_sdk w1 fresh_session (Str ''second'');
          (r2, w3) = sendMessage_resume w2 fresh_session p2;
          (r1, w4) = sendMessage_resume w3 fresh_session p1
      in (r1, r2, w4))"

section \<open>Properties of the history formatting\<close>

lemma get_prop_Obj: "get_prop (Obj fs) k = Inr (field fs k)"
  by (simp add: field_def)

lemma truthy_not_Undefined: "truthy v \<Longrightarrow> v \<noteq> Undefined"
  by auto

lemma get_prop_cases:
  "(v = Undefined \<or> v = Null) \<and> get_prop v k = Inl (NativeError (cannot_read v k))
   \<or> v \<noteq> Undefined \<and> v \<noteq> Null \<and> (\<exists>x. get_prop v k = Inr x)"
  by (cases v) auto

lemma get_prop_defined: "v \<noteq> Undefined \<Longrightarrow> v \<noteq> Null \<Longrightarrow> \<exists>x. get_prop v k = Inr x"
  by (cases v) auto

lemma format_message_Obj:
  "format_message (Obj fs) =
     Inr (Obj [(''role'', if truthy (field fs ''role'') then field fs ''role'' else Str ''user''),
               (''text'', first_truthy [field fs ''text'', field fs ''message'', field fs ''content'']
                            (Str ''''))])"
  by (simp add: format_message_def field_def js_or_def)

lemma map_throwing_total:
  "(\<And>x. x \<in> set xs \<Longrightarrow> f x = Inr (g x)) \<Longrightarrow> map_throwing f xs = Inr (map g xs)"
  by (induction xs) auto

text \<open>
  Claim C8, as the code has it. For every list of records, \<^verbatim>\<open>formatChatHistory\<close> maps
  each record, in order, to a turn whose role is the record's role field when that
  field is truthy and \<^verbatim>\<open>user\<close> otherwise, and whose text is the first truthy value among
  the text, message and content fields, the empty string when none is truthy. The two
  examples of the specification hold.
\<close>

theorem formatChatHistory_records:
  "formatChatHistory (Arr (map Obj fss)) =
     Inr (Arr (map (\<lambda>fs. Obj
       [(''role'', if truthy (field fs ''role'') then field fs ''role'' else Str ''user''),
        (''text'', first_truthy [field fs ''text'', field fs ''message'', field fs ''content'']
                     (Str ''''))]) fss))
   \<and> formatChatHistory (Arr [Obj [(''content'', Str ''x'')]])
       = Inr (Arr [Obj [(''role'', Str ''user''), (''text'', Str ''x'')]])
   \<and> formatChatHistory (Arr [Obj [(''role'', Str ''assistant''), (''message'', Str ''y'')]])
       = Inr (Arr [Obj [(''role'', Str ''assistant''), (''text'', Str ''y'')]])"
proof -
  have "map_throwing format_message (map Obj fss) =
      Inr (map (\<lambda>fs. Obj
       [(''role'', if truthy (field fs ''role'') then field fs ''role'' else Str ''user''),
        (''text'', first_truthy [field fs ''text'', field fs ''message'', field fs ''content'']
                     (Str ''''))]) fss)"
    by (induction fss) (simp_all add: format_message_Obj)
  moreover have "formatChatHistory (Arr [Obj [(''content'', Str ''x'')]])
       = Inr (Arr [Obj [(''role'', Str ''user''), (''text'', Str ''x'')]])"
    by (simp add: format_message_def js_or_def)
  moreover have "formatChatHistory (Arr [Obj [(''role'', Str ''assistant''), (''message'', Str ''y'')]])
       = Inr (Arr [Obj [(''role'', Str ''assistant''), (''text'', Str ''y'')]])"
    by (simp add: format_message_def js_or_def)
  ultimately show ?thesis by simp
qed

text \<open>
  Claim C8 as stated fails on a record whose text field is present and empty: the
  first present field is the text field, and the code takes the message field.
\<close>

theorem formatChatHistory_first_present_counterexample:
  "formatChatHistory (Arr [Obj [(''text'', Str ''''), (''message'', Str ''y'')]])
     = Inr (Arr [Obj [(''role'', Str ''user''), (''text'', Str ''y'')]])
   \<and> spec_turn [(''text'', Str ''''), (''message'', Str ''y'')]
     = Obj [(''role'', Str ''user''), (''text'', Str '''')]
   \<and> formatChatHistory (Arr [Obj [(''text'', Str ''''), (''message'', Str ''y'')]])
     \<noteq> Inr (Arr [spec_turn [(''text'', Str ''''), (''message'', Str ''y'')]])"
  by (simp add: format_message_def js_or_def spec_turn_def)

lemma format_message_defined:
  "v \<noteq> Undefined \<Longrightarrow> v \<noteq> Null \<Longrightarrow> \<exists>t. format_message v = Inr t"
  by (cases v) (simp_all add: format_message_def)

lemma format_message_nullish:
  "v = Undefined \<or> v = Null \<Longrightarrow> format_message v = Inl (NativeError (cannot_read v ''role''))"
  by (auto simp: format_message_def)

lemma map_throwing_defined:
  "Undefined \<notin> set xs \<Longrightarrow> Null \<notin> set xs
   \<Longrightarrow> \<exists>ys. map_throwing format_message xs = Inr ys \<and> length ys = length xs"
proof (induction xs)
  case Nil
  then show ?case by simp
next
  case (Cons x xs)
  then obtain ys where ys: "map_throwing format_message xs = Inr ys" "length ys = length xs"
    by auto
  from Cons.prems obtain t where "format_message x = Inr t"
    using format_message_defined [of x] by auto
  with ys show ?case by simp
qed

lemma cannot_read_TypeError: "\<exists>m. cannot_read v k = JsError ''TypeError'' m"
  by (simp add: cannot_read_def)

lemma map_throwing_nullish:
  "Undefined \<in> set xs \<or> Null \<in> set xs
   \<Longrightarrow> \<exists>m. map_throwing format_message xs = Inl (NativeError (JsError ''TypeError'' m))"
proof (induction xs)
  case Nil
  then show ?case by simp
next
  case (Cons x xs)
  show ?case
  proof (cases "x = Undefined \<or> x = Null")
    case True
    then have "map_throwing format_message (x # xs) = Inl (NativeError (cannot_read x ''role''))"
      using format_message_nullish [of x] by simp
    then show ?thesis using cannot_read_TypeError [of x "''role''"] by auto
  next
    case False
    then obtain t where t: "format_message x = Inr t"
      using format_message_defined [of x] by auto
    from False Cons obtain m where
      "map_throwing format_message xs = Inl (NativeError (JsError ''TypeError'' m))"
      by auto
    with t show ?thesis by simp
  qed
qed

lemma formatChatHistory_not_array:
  "\<forall>ys. v \<noteq> Arr ys \<Longrightarrow> \<exists>m. formatChatHistory v = Inl (NativeError (JsError ''TypeError'' m))"
  by (cases v) (simp_all add: cannot_read_def not_a_function_def)

text \<open>
  Claim C9, as the code has it. On an array none of whose elements is \<^verbatim>\<open>null\<close> or
  \<^verbatim>\<open>undefined\<close>, \<^verbatim>\<open>formatChatHistory\<close> returns an array of the same length, whatever
  fields the elements have or lack; on an array with such an element, and on an
  argument that is not an array, it throws a \<^verbatim>\<open>TypeError\<close>. It is pure: the call
  leaves the client and the log of network calls as they were, and its result is the
  same for every client and every log, a function of the argument alone.
\<close>

theorem formatChatHistory_total_on_arrays:
  "(Undefined \<notin> set xs \<and> Null \<notin> set xs \<longrightarrow>
      (\<exists>ys. formatChatHistory (Arr xs) = Inr (Arr ys) \<and> length ys = length xs))
   \<and> (Undefined \<in> set xs \<or> Null \<in> set xs \<longrightarrow>
      (\<exists>m. formatChatHistory (Arr xs) = Inl (NativeError (JsError ''TypeError'' m))))
   \<and> ((\<forall>ys. v \<noteq> Arr ys) \<longrightarrow>
      (\<exists>m. formatChatHistory v = Inl (NativeError (JsError ''TypeError'' m))))
   \<and> formatChatHistory_method sdk log v = (formatChatHistory v, sdk, log)
   \<and> fst (formatChatHistory_method sdk log v) = fst (formatChatHistory_method sdk' log' v)"
proof (intro conjI impI)
  assume "Undefined \<notin> set xs \<and> Null \<notin> set xs"
  then obtain ys where "map_throwing format_message xs = Inr ys" "length ys = length xs"
    using map_throwing_defined [of xs] by auto
  then show "\<exists>ys. formatChatHistory (Arr xs) = Inr (Arr ys) \<and> length ys = length xs"
    by simp
next
  assume "Undefined \<in> set xs \<or> Null \<in> set xs"
  then obtain m where
    "map_throwing format_message xs = Inl (NativeError (JsError ''TypeError'' m))"
    using map_throwing_nullish [of xs] by auto
  then show "\<exists>m. formatChatHistory (Arr xs) = Inl (NativeError (JsError ''TypeError'' m))"
    by simp
next
  assume "\<forall>ys. v \<noteq> Arr ys"
  then show "\<exists>m. formatChatHistory v = Inl (NativeError (JsError ''TypeError'' m))"
    by (rule formatChatHistory_not_array)
next
  show "formatChatHistory_method sdk log v = (formatChatHistory v, sdk, log)"
    by (simp add: formatChatHistory_method_def)
next
  show "fst (formatChatHistory_method sdk log v) = fst (formatChatHistory_method sdk' log' v)"
    by (simp add: formatChatHistory_method_def)
qed

text \<open>Claim C9 on records without fields, with a \<^verbatim>\<open>null\<close> role, on a string element,
  on a \<^verbatim>\<open>null\<close> element, on an argument that is a record, and as a call on a client.\<close>

theorem formatChatHistory_total_on_arrays_witness:
  "(\<exists>ys. formatChatHistory
            (Arr [Obj [], Obj [(''role'', Null), (''text'', Num ''3'')], Str ''abc''])
           = Inr (Arr ys) \<and> length ys = 3)
   \<and> (\<exists>m. formatChatHistory (Arr [Obj [], Null])
           = Inl (NativeError (JsError ''TypeError'' m)))
   \<and> (\<exists>m. formatChatHistory (Obj [(''role'', Str ''user'')])
           = Inl (NativeError (JsError ''TypeError'' m)))
   \<and> formatChatHistory_method demo_sdk [] (Arr [Obj [], Null])
       = (formatChatHistory (Arr [Obj [], Null]), demo_sdk, [])"
proof -
  note first = formatChatHistory_total_on_arrays
      [of "[Obj [], Obj [(''role'', Null), (''text'', Num ''3'')], Str ''abc'']" Null
          demo_sdk "[]" demo_sdk "[]"]
  note second = formatChatHistory_total_on_arrays
      [of "[Obj [], Null]" "Obj [(''role'', Str ''user'')]" demo_sdk "[]" demo_sdk "[]"]
  note third = formatChatHistory_total_on_arrays
      [of "[]" "Arr [Obj [], Null]" demo_sdk "[]" demo_sdk "[]"]
  from first have a: "\<exists>ys. formatChatHistory
            (Arr [Obj [], Obj [(''role'', Null), (''text'', Num ''3'')], Str ''abc''])
           = Inr (Arr ys) \<and> length ys = 3"
    by (simp add: numeral_3_eq_3 del: formatChatHistory.simps)
  from second have b: "\<exists>m. formatChatHistory (Arr [Obj [], Null])
           = Inl (NativeError (JsError ''TypeError'' m))"
    by (simp del: formatChatHistory.simps)
  from second have c: "\<exists>m. formatChatHistory (Obj [(''role'', Str ''user'')])
           = Inl (NativeError (JsError ''TypeError'' m))"
    by (simp del: formatChatHistory.simps)
  from third have d: "formatChatHistory_method demo_sdk [] (Arr [Obj [], Null])
       = (formatChatHistory (Arr [Obj [], Null]), demo_sdk, [])"
    by blast
  from a b c d show ?thesis
    by (intro conjI)
qed

text \<open>
  Claim C9 as stated fails on a \<^verbatim>\<open>null\<close> element and on a string argument: both
  calls throw a \<^verbatim>\<open>TypeError\<close>.
\<close>

theorem formatChatHistory_total_counterexample:
  "formatChatHistory (Arr [Null]) = Inl (NativeError (cannot_read Null ''role''))
   \<and> formatChatHistory (Str ''abc'') = Inl (NativeError (not_a_function ''messages.map''))"
  by (simp add: format_message_def)

text \<open>Claim C8 on a list of two records, one of them with an empty text field.\<close>

theorem formatChatHistory_records_witness:
  "formatChatHistory (Arr (map Obj ([(''text'', Str ''''), (''content'', Str ''c'')]
                                    # [(''role'', Str ''assistant''), (''text'', Num ''7'')] # [])))
     = Inr (Arr [Obj [(''role'', Str ''user''), (''text'', Str ''c'')],
                 Obj [(''role'', Str ''assistant''), (''text'', Num ''7'')]])"
  using formatChatHistory_records [of "[(''text'', Str ''''), (''content'', Str ''c'')]
                                       # [(''role'', Str ''assistant''), (''text'', Num ''7'')] # []"]
  by (simp add: field_def del: formatChatHistory.simps)


section \<open>Properties of the resource clients\<close>

lemma sdk_request_logs:
  "snd (sdk_request srv sdk log endpoint opts) = log @ [request_of sdk endpoint opts]"
  by (simp add: sdk_request_def Let_def)

lemma sdk_request_result:
  "fst (sdk_request srv sdk log endpoint opts) = settle (srv log (request_of sdk endpoint opts))"
  by (simp add: sdk_request_def Let_def)

text \<open>
  Claim C5. For every parameter record whose message field is absent or the empty
  string, \<^verbatim>\<open>ragChat\<close> fails with the error value ``Message is required'' of status 400,
  and the log of network calls is the one it started with: no request was issued.
\<close>

theorem ragChat_requires_message:
  "map_of fs ''message'' = None \<or> map_of fs ''message'' = Some (Str '''')
   \<Longrightarrow> ragChat srv sdk log (Obj fs)
       = (Inl (SdkError \<lparr>message = ''Message is required'', status = Some 400,
                         data = Data Null\<rparr>), log)"
  by (auto simp: ragChat_def validation_error_def)

text \<open>Claim C5 on an empty message and on a record without a message.\<close>

theorem ragChat_requires_message_witness:
  "ragChat (mock_backend (Response 200 (Obj [(''reply'', Str ''hello'')]))) demo_sdk []
       (Obj [(''message'', Str '''')])
     = (Inl (SdkError \<lparr>message = ''Message is required'', status = Some 400,
                       data = Data Null\<rparr>), [])
   \<and> ragChat (mock_backend (Response 200 (Obj [(''reply'', Str ''hello'')]))) demo_sdk []
       (Obj [(''history'', Arr [])])
     = (Inl (SdkError \<lparr>message = ''Message is required'', status = Some 400,
                       data = Data Null\<rparr>), [])"
  using ragChat_requires_message [of "[(''message'', Str '''')]"
          "mock_backend (Response 200 (Obj [(''reply'', Str ''hello'')]))" demo_sdk "[]"]
        ragChat_requires_message [of "[(''history'', Arr [])]"
          "mock_backend (Response 200 (Obj [(''reply'', Str ''hello'')]))" demo_sdk "[]"]
  by simp

lemma stringify_chat_payload:
  "truthy msg \<Longrightarrow>
   JSON_stringify (chat_payload msg hist prompt) = Some (Obj (chat_members msg hist prompt))"
  by (auto simp: JSON_stringify_def chat_payload_def chat_members_def)

lemma ragChat_sends:
  assumes "truthy (field fs ''message'')"
  shows "ragChat srv sdk log (Obj fs) =
     (settle (srv log (chat_request sdk
         (chat_members (field fs ''message'') (field fs ''history'') (field fs ''system_prompt'')))),
      log @ [chat_request sdk
         (chat_members (field fs ''message'') (field fs ''history'') (field fs ''system_prompt''))])"
  using assms
  by (simp add: ragChat_def field_def sdk_request_def request_of_def chat_request_def
        stringify_chat_payload Let_def)

text \<open>
  Claim C6, as the code has it. For every parameter record with a truthy (for a
  string: non-empty) message, \<^verbatim>\<open>ragChat\<close> issues exactly one request, a POST to the
  chat endpoint, whose body has the message, then the history if and only if the given
  history is truthy, then the system prompt if and only if the given one is truthy, and
  nothing else; a history or a system prompt that is absent from the parameters is
  absent from the body. When the backend answers with a success status, the result is
  the parsed body as it is.
\<close>

theorem ragChat_body_and_reply:
  assumes "truthy (field fs ''message'')"
  shows "\<exists>members result.
      ragChat srv sdk log (Obj fs) = (result, log @ [chat_request sdk members])
      \<and> members = (''message'', JSON_value (field fs ''message''))
          # (if truthy (field fs ''history'')
             then [(''history'', JSON_value (field fs ''history''))] else [])
          @ (if truthy (field fs ''system_prompt'')
             then [(''system_prompt'', JSON_value (field fs ''system_prompt''))] else [])
      \<and> (map_of fs ''history'' = None \<longrightarrow> map_of members ''history'' = None)
      \<and> (map_of fs ''system_prompt'' = None \<longrightarrow> map_of members ''system_prompt'' = None)
      \<and> (\<forall>st body. srv log (chat_request sdk members) = Response st body \<and> response_ok st
            \<longrightarrow> result = Inr body)"
proof -
  let ?members = "chat_members (field fs ''message'') (field fs ''history'')
      (field fs ''system_prompt'')"
  let ?result = "settle (srv log (chat_request sdk ?members))"
  have run: "ragChat srv sdk log (Obj fs) = (?result, log @ [chat_request sdk ?members])"
    using assms by (rule ragChat_sends)
  have shape: "?members = (''message'', JSON_value (field fs ''message''))
          # (if truthy (field fs ''history'')
             then [(''history'', JSON_value (field fs ''history''))] else [])
          @ (if truthy (field fs ''system_prompt'')
             then [(''system_prompt'', JSON_value (field fs ''system_prompt''))] else [])"
    by (simp add: chat_members_def)
  have no_history: "map_of fs ''history'' = None \<longrightarrow> map_of ?members ''history'' = None"
    by (simp add: chat_members_def field_def)
  have no_prompt:
    "map_of fs ''system_prompt'' = None \<longrightarrow> map_of ?members ''system_prompt'' = None"
    by (simp add: chat_members_def field_def)
  have verbatim: "\<forall>st body. srv log (chat_request sdk ?members) = Response st body
      \<and> response_ok st \<longrightarrow> ?result = Inr body"
    by (simp add: settle_def)
  show ?thesis
  proof (intro exI conjI)
    show "ragChat srv sdk log (Obj fs) = (?result, log @ [chat_request sdk ?members])"
      by (rule run)
  qed (rule shape no_history no_prompt verbatim)+
qed

text \<open>Claim C6 on the message \<^verbatim>\<open>hi\<close> against a backend that returns the reply
  \<^verbatim>\<open>hello\<close>: the body holds the message alone and the result is the reply record.\<close>

theorem ragChat_body_and_reply_witness:
  "ragChat (mock_backend (Response 200 (Obj [(''reply'', Str ''hello'')]))) demo_sdk []
       (Obj [(''message'', Str ''hi'')])
     = (Inr (Obj [(''reply'', Str ''hello'')]),
        [chat_request demo_sdk [(''message'', Str ''hi'')]])"
proof -
  have "truthy (field [(''message'', Str ''hi'')] ''message'')"
    by (simp add: field_def)
  from ragChat_body_and_reply [OF this,
      of "mock_backend (Response 200 (Obj [(''reply'', Str ''hello'')]))" demo_sdk "[]"]
  show ?thesis
    by (auto simp: field_def mock_backend_def response_ok_def)
qed

text \<open>
  Claim C7 as stated fails on an item that supplies a title, the empty string: it is
  rejected by the validation and not passed to the transport.
\<close>

theorem createItem_empty_title_counterexample:
  "map_of [(''title'', Str '''')] ''title'' = Some (Str '''')
   \<and> createItem (mock_backend (Response 201 (Obj [(''id'', Num ''1'')]))) demo_sdk []
        (Obj [(''title'', Str '''')])
     = (Inl (SdkError \<lparr>message = ''Either title or text is required'', status = Some 400,
                       data = Data Null\<rparr>), [])"
  by (simp add: createItem_def validation_error_def)

text \<open>
  Claim C7, as the code has it. An item whose title and text are both falsy (absent,
  \<^verbatim>\<open>null\<close>, the empty string) makes \<^verbatim>\<open>createItem\<close> fail with the error value
  ``Either title or text is required'' of status 400 and an unchanged log of network
  calls; this is so in particular for an item that has neither field. An item with a
  truthy title or a truthy text is passed to the transport: one POST to the items
  endpoint with the serialised item as body.
\<close>

theorem createItem_validation:
  "(\<not> truthy (field fs ''title'') \<and> \<not> truthy (field fs ''text'') \<longrightarrow>
      createItem srv sdk log (Obj fs)
        = (Inl (SdkError \<lparr>message = ''Either title or text is required'', status = Some 400,
                          data = Data Null\<rparr>), log))
   \<and> (map_of fs ''title'' = None \<and> map_of fs ''text'' = None \<longrightarrow>
      createItem srv sdk log (Obj fs)
        = (Inl (SdkError \<lparr>message = ''Either title or text is required'', status = Some 400,
                          data = Data Null\<rparr>), log))
   \<and> (truthy (field fs ''title'') \<or> truthy (field fs ''text'') \<longrightarrow>
      snd (createItem srv sdk log (Obj fs))
        = log @ [\<lparr>req_url = baseUrl sdk @ ''/api/items'', req_method = Some ''POST'',
                  req_headers = headers sdk, req_body = Some (Obj (JSON_members fs))\<rparr>])"
  by (auto simp: createItem_def validation_error_def field_def sdk_request_def
        request_of_def JSON_stringify_def Let_def)

text \<open>Claim C7 on the empty item, on an item with a URL alone, and on an item with
  a text.\<close>

theorem createItem_validation_witness:
  "createItem (mock_backend (Response 201 (Obj [(''id'', Num ''1'')]))) demo_sdk [] (Obj [])
     = (Inl (SdkError \<lparr>message = ''Either title or text is required'', status = Some 400,
                       data = Data Null\<rparr>), [])
   \<and> createItem (mock_backend (Response 201 (Obj [(''id'', Num ''1'')]))) demo_sdk []
        (Obj [(''url'', Str ''http://x'')])
     = (Inl (SdkError \<lparr>message = ''Either title or text is required'', status = Some 400,
                       data = Data Null\<rparr>), [])
   \<and> snd (createItem (mock_backend (Response 201 (Obj [(''id'', Num ''1'')]))) demo_sdk []
        (Obj [(''text'', Str ''body'')]))
     = [\<lparr>req_url = ''http://localhost:3000/api/items'', req_method = Some ''POST'',
         req_headers = headers demo_sdk, req_body = Some (Obj [(''text'', Str ''body'')])\<rparr>]"
  using createItem_validation [of "[]" "mock_backend (Response 201 (Obj [(''id'', Num ''1'')]))"
          demo_sdk "[]"]
        createItem_validation [of "[(''url'', Str ''http://x'')]"
          "mock_backend (Response 201 (Obj [(''id'', Num ''1'')]))" demo_sdk "[]"]
        createItem_validation [of "[(''text'', Str ''body'')]"
          "mock_backend (Response 201 (Obj [(''id'', Num ''1'')]))" demo_sdk "[]"]
  by (simp add: field_def demo_sdk_def)

text \<open>
  Claim C6 as stated fails on parameters that provide a system prompt, the empty
  string: the body holds the message alone.
\<close>

theorem ragChat_empty_prompt_counterexample:
  "map_of [(''message'', Str ''hi''), (''system_prompt'', Str '''')] ''system_prompt''
     = Some (Str '''')
   \<and> snd (ragChat hello_backend demo_sdk []
             (Obj [(''message'', Str ''hi''), (''system_prompt'', Str '''')]))
     = [chat_request demo_sdk [(''message'', Str ''hi'')]]"
  using ragChat_sends [of "[(''message'', Str ''hi''), (''system_prompt'', Str '''')]"
      hello_backend demo_sdk "[]"]
  by (simp add: field_def chat_members_def)


section \<open>Properties of the transport\<close>

lemma settle_failure_status:
  assumes "\<not> response_ok st" and "get_prop body ''error'' = Inr err"
    and "ToString err = Inr text"
  shows "settle (Response st body) =
     Inl (SdkError \<lparr>message = (if truthy err then text else ''HTTP '' @ string_of_int st),
                     status = Some st, data = Data body\<rparr>)"
  using assms by (simp add: settle_def js_or_def)

lemma settle_no_response:
  "settle (Rejected e) =
     Inl (SdkError \<lparr>message = error_message e, status = None, data = Cause e\<rparr>)"
  "settle (Unparseable st e) =
     Inl (SdkError \<lparr>message = error_message e, status = None, data = Cause e\<rparr>)"
  by (simp_all add: settle_def wrap_failure_def)

lemma string_of_int_500: "string_of_int 500 = ''500''"
  by (simp add: string_of_int_def string_of_nat.simps)

text \<open>
  Claim C3 as stated fails for a response of status 500 whose body parses as JSON:
  with the body \<^verbatim>\<open>null\<close> the error value has a \<^verbatim>\<open>null\<close> status and the \<^verbatim>\<open>TypeError\<close> as
  payload; with a body whose error field is present and empty the message is the
  generic one; with an error field that is an object with a \<^verbatim>\<open>toString\<close> member the
  construction of the error throws, and the error value has a \<^verbatim>\<open>null\<close> status again.
\<close>

theorem request_null_body_counterexample:
  "\<not> response_ok 500
   \<and> fst (sdk_request (mock_backend (Response 500 Null)) demo_sdk [] ''/api/items'' no_options)
     = Inl (SdkError \<lparr>message = error_message (cannot_read Null ''error''), status = None,
                      data = Cause (cannot_read Null ''error'')\<rparr>)
   \<and> fst (sdk_request (mock_backend (Response 500 (Obj [(''error'', Str '''')]))) demo_sdk []
            ''/api/items'' no_options)
     = Inl (SdkError \<lparr>message = ''HTTP 500'', status = Some 500,
                      data = Data (Obj [(''error'', Str '''')])\<rparr>)
   \<and> fst (sdk_request
            (mock_backend (Response 500 (Obj [(''error'', Obj [(''toString'', Num ''1'')])])))
            demo_sdk [] ''/api/items'' no_options)
     = Inl (SdkError \<lparr>message = ''Cannot convert object to primitive value'', status = None,
                      data = Cause cannot_convert\<rparr>)"
  by (simp add: sdk_request_def settle_def mock_backend_def response_ok_def wrap_failure_def
        string_of_int_500 js_or_def cannot_convert_def)

text \<open>
  Claim C3, as the code has it. When a response with a non-success status (a code from
  0 to 999) arrives, its body parses to a value other than \<^verbatim>\<open>null\<close>, and the body's
  error field converts to a string, the call fails with an error value whose message is
  that string when the field is truthy and ``HTTP'' followed by the status otherwise,
  whose status is the HTTP status and whose payload is the parsed body. Every string,
  number and boolean converts, and so does an absent field; an object with a member
  \<^verbatim>\<open>toString\<close>, or an array that holds one, does not. When no response arrives or the
  body does not parse, the call fails with the message of the underlying failure, a
  \<^verbatim>\<open>null\<close> status and the failure as payload. A 404 response with the body
  \<^verbatim>\<open>{"error":"not found"}\<close> to \<^verbatim>\<open>getItem('missing')\<close> gives status 404 and message
  \<^verbatim>\<open>not found\<close>.
\<close>

theorem request_failures:
  "(srv log (request_of sdk endpoint opts) = Response st body \<and> \<not> response_ok st
      \<and> 0 \<le> st \<and> st \<le> 999 \<and> body \<noteq> Null \<and> body \<noteq> Undefined \<longrightarrow>
      (\<exists>err. get_prop body ''error'' = Inr err
        \<and> (\<forall>text. ToString err = Inr text \<longrightarrow>
             fst (sdk_request srv sdk log endpoint opts)
               = Inl (SdkError
                   \<lparr>message = (if truthy err then text else ''HTTP '' @ string_of_int st),
                    status = Some st, data = Data body\<rparr>))))
   \<and> (srv log (request_of sdk endpoint opts) = Rejected e
       \<or> srv log (request_of sdk endpoint opts) = Unparseable st e \<longrightarrow>
      fst (sdk_request srv sdk log endpoint opts)
        = Inl (SdkError \<lparr>message = error_message e, status = None, data = Cause e\<rparr>))
   \<and> fst (getItem (mock_backend (Response 404 (Obj [(''error'', Str ''not found'')]))) sdk log
            (Str ''missing''))
     = Inl (SdkError \<lparr>message = ''not found'', status = Some 404,
                      data = Data (Obj [(''error'', Str ''not found'')])\<rparr>)"
proof (intro conjI impI)
  assume a: "srv log (request_of sdk endpoint opts) = Response st body \<and> \<not> response_ok st
      \<and> 0 \<le> st \<and> st \<le> 999 \<and> body \<noteq> Null \<and> body \<noteq> Undefined"
  then obtain err where err: "get_prop body ''error'' = Inr err"
    using get_prop_defined [of body "''error''"] by auto
  have "\<forall>text. ToString err = Inr text \<longrightarrow>
      fst (sdk_request srv sdk log endpoint opts)
        = Inl (SdkError
            \<lparr>message = (if truthy err then text else ''HTTP '' @ string_of_int st),
             status = Some st, data = Data body\<rparr>)"
    using a err by (simp add: sdk_request_result settle_failure_status)
  with err show "\<exists>err. get_prop body ''error'' = Inr err
        \<and> (\<forall>text. ToString err = Inr text \<longrightarrow>
             fst (sdk_request srv sdk log endpoint opts)
               = Inl (SdkError
                   \<lparr>message = (if truthy err then text else ''HTTP '' @ string_of_int st),
                    status = Some st, data = Data body\<rparr>))"
    by blast
next
  assume "srv log (request_of sdk endpoint opts) = Rejected e
       \<or> srv log (request_of sdk endpoint opts) = Unparseable st e"
  then show "fst (sdk_request srv sdk log endpoint opts)
        = Inl (SdkError \<lparr>message = error_message e, status = None, data = Cause e\<rparr>)"
    by (auto simp: sdk_request_result settle_no_response)
next
  show "fst (getItem (mock_backend (Response 404 (Obj [(''error'', Str ''not found'')]))) sdk log
            (Str ''missing''))
     = Inl (SdkError \<lparr>message = ''not found'', status = Some 404,
                      data = Data (Obj [(''error'', Str ''not found'')])\<rparr>)"
    by (simp add: getItem_def sdk_request_result mock_backend_def settle_def response_ok_def
          js_or_def)
qed

text \<open>Claim C3 on a 500 without an error field, a 403 with a string, a 429 with an
  array, a rejected fetch and a body that does not parse.\<close>

theorem request_failures_witness:
  "fst (sdk_request (mock_backend (Response 500 (Obj [(''errors'', Arr [])]))) demo_sdk []
          ''/api/items'' no_options)
     = Inl (SdkError \<lparr>message = ''HTTP 500'', status = Some 500,
                      data = Data (Obj [(''errors'', Arr [])])\<rparr>)
   \<and> fst (sdk_request (mock_backend (Response 403 (Obj [(''error'', Str ''forbidden'')])))
          demo_sdk [] ''/api/items'' no_options)
     = Inl (SdkError \<lparr>message = ''forbidden'', status = Some 403,
                      data = Data (Obj [(''error'', Str ''forbidden'')])\<rparr>)
   \<and> fst (sdk_request
          (mock_backend (Response 429 (Obj [(''error'', Arr [Num ''1.5'', Null, Str ''slow''])])))
          demo_sdk [] ''/api/items'' no_options)
     = Inl (SdkError \<lparr>message = ''1.5,,slow'', status = Some 429,
                      data = Data (Obj [(''error'', Arr [Num ''1.5'', Null, Str ''slow''])])\<rparr>)
   \<and> fst (sdk_request (mock_backend (Rejected (JsError ''TypeError'' ''fetch failed'')))
          demo_sdk [] ''/api/items'' no_options)
     = Inl (SdkError \<lparr>message = ''fetch failed'', status = None,
                      data = Cause (JsError ''TypeError'' ''fetch failed'')\<rparr>)
   \<and> fst (sdk_request
          (mock_backend (Unparseable 200 (JsError ''SyntaxError'' ''Unexpected token'')))
          demo_sdk [] ''/api/items'' no_options)
     = Inl (SdkError \<lparr>message = ''Unexpected token'', status = None,
                      data = Cause (JsError ''SyntaxError'' ''Unexpected token'')\<rparr>)"
proof -
  from request_failures [where srv = "mock_backend (Response 500 (Obj [(''errors'', Arr [])]))"
      and log = "[]" and sdk = demo_sdk and endpoint = "''/api/items''" and opts = no_options
      and st = 500 and body = "Obj [(''errors'', Arr [])]"]
  have a: "fst (sdk_request (mock_backend (Response 500 (Obj [(''errors'', Arr [])]))) demo_sdk []
          ''/api/items'' no_options)
     = Inl (SdkError \<lparr>message = ''HTTP 500'', status = Some 500,
                      data = Data (Obj [(''errors'', Arr [])])\<rparr>)"
    by (simp add: mock_backend_def response_ok_def string_of_int_500)
  from request_failures
      [where srv = "mock_backend (Response 403 (Obj [(''error'', Str ''forbidden'')]))"
      and log = "[]" and sdk = demo_sdk and endpoint = "''/api/items''" and opts = no_options
      and st = 403 and body = "Obj [(''error'', Str ''forbidden'')]"]
  have b: "fst (sdk_request (mock_backend (Response 403 (Obj [(''error'', Str ''forbidden'')])))
          demo_sdk [] ''/api/items'' no_options)
     = Inl (SdkError \<lparr>message = ''forbidden'', status = Some 403,
                      data = Data (Obj [(''error'', Str ''forbidden'')])\<rparr>)"
    by (simp add: mock_backend_def response_ok_def)
  from request_failures
      [where srv = "mock_backend
          (Response 429 (Obj [(''error'', Arr [Num ''1.5'', Null, Str ''slow''])]))"
      and log = "[]" and sdk = demo_sdk and endpoint = "''/api/items''" and opts = no_options
      and st = 429 and body = "Obj [(''error'', Arr [Num ''1.5'', Null, Str ''slow''])]"]
  have c: "fst (sdk_request
          (mock_backend (Response 429 (Obj [(''error'', Arr [Num ''1.5'', Null, Str ''slow''])])))
          demo_sdk [] ''/api/items'' no_options)
     = Inl (SdkError \<lparr>message = ''1.5,,slow'', status = Some 429,
                      data = Data (Obj [(''error'', Arr [Num ''1.5'', Null, Str ''slow''])])\<rparr>)"
    by (simp add: mock_backend_def response_ok_def)
  from request_failures
      [where srv = "mock_backend (Rejected (JsError ''TypeError'' ''fetch failed''))"
      and log = "[]" and sdk = demo_sdk and endpoint = "''/api/items''" and opts = no_options
      and e = "JsError ''TypeError'' ''fetch failed''"]
  have d: "fst (sdk_request (mock_backend (Rejected (JsError ''TypeError'' ''fetch failed'')))
          demo_sdk [] ''/api/items'' no_options)
     = Inl (SdkError \<lparr>message = ''fetch failed'', status = None,
                      data = Cause (JsError ''TypeError'' ''fetch failed'')\<rparr>)"
    by (simp add: mock_backend_def)
  from request_failures
      [where srv = "mock_backend (Unparseable 200 (JsError ''SyntaxError'' ''Unexpected token''))"
      and log = "[]" and sdk = demo_sdk and endpoint = "''/api/items''" and opts = no_options
      and st = 200 and e = "JsError ''SyntaxError'' ''Unexpected token''"]
  have e: "fst (sdk_request
          (mock_backend (Unparseable 200 (JsError ''SyntaxError'' ''Unexpected token'')))
          demo_sdk [] ''/api/items'' no_options)
     = Inl (SdkError \<lparr>message = ''Unexpected token'', status = None,
                      data = Cause (JsError ''SyntaxError'' ''Unexpected token'')\<rparr>)"
    by (simp add: mock_backend_def)
  from a b c d e show ?thesis
    by (intro conjI)
qed


section \<open>The store of a session\<close>

lemma session_ofD:
  assumes "session_of h s"
  shows "history s < length h"
    and "h ! history s = Array (elements h (history s))"
    and "list_all (is_object h) (elements h (history s))"
  using assms by (auto simp: session_of_def elements_def split: cell.splits)

lemma session_ofI:
  "a < length h \<Longrightarrow> h ! a = Array rs \<Longrightarrow> list_all (is_object h) rs
   \<Longrightarrow> history s = a \<Longrightarrow> session_of h s"
  by (auto simp: session_of_def)

lemma elements_append: "a < length h \<Longrightarrow> elements (h @ cs) a = elements h a"
  by (simp add: elements_def nth_append)

lemma is_object_append: "is_object h r \<Longrightarrow> is_object (h @ cs) r"
  by (auto simp: is_object_def nth_append)

lemma object_at_append: "r < length h \<Longrightarrow> object_at (h @ cs) r = object_at h r"
  by (simp add: object_at_def nth_append)

lemma map_object_at_append:
  "list_all (is_object h) rs \<Longrightarrow> map (object_at (h @ cs)) rs = map (object_at h) rs"
  by (induction rs) (auto simp: is_object_def object_at_append)

lemma session_of_append:
  assumes "session_of h s"
  shows "session_of (h @ cs) s"
    and "elements (h @ cs) (history s) = elements h (history s)"
    and "turns (h @ cs) (history s) = turns h (history s)"
proof -
  note s = session_ofD [OF assms]
  show e: "elements (h @ cs) (history s) = elements h (history s)"
    using s(1) by (rule elements_append)
  have "list_all (is_object (h @ cs)) (elements h (history s))"
    using s(3) by (auto simp: list_all_iff is_object_append)
  then show "session_of (h @ cs) s"
    using s(1,2) by (auto simp: session_of_def nth_append)
  show "turns (h @ cs) (history s) = turns h (history s)"
    using s(3) by (simp add: turns_def e map_object_at_append)
qed

lemma spread_session:
  assumes "session_of h s"
  shows "spread h (history s) = (length h, h @ [Array (elements h (history s))])"
    and "turns (h @ [Array (elements h (history s))]) (length h) = turns h (history s)"
    and "elements (h @ [Array (elements h (history s))]) (length h) = elements h (history s)"
proof -
  show "spread h (history s) = (length h, h @ [Array (elements h (history s))])"
    by (simp add: spread_def alloc_def)
  show e: "elements (h @ [Array (elements h (history s))]) (length h) = elements h (history s)"
    by (simp add: elements_def)
  show "turns (h @ [Array (elements h (history s))]) (length h) = turns h (history s)"
    using session_ofD(3) [OF assms] by (simp add: turns_def e map_object_at_append)
qed

lemma object_at_update_array:
  "r \<noteq> a \<Longrightarrow> object_at (h[a := c]) r = object_at h r"
  by (simp add: object_at_def)

lemma is_object_update_array:
  "is_object h r \<Longrightarrow> h ! a = Array rs \<Longrightarrow> is_object (h[a := Array rs']) r"
  by (cases "r = a") (auto simp: is_object_def)

lemma is_object_not_array: "is_object h r \<Longrightarrow> h ! a = Array rs \<Longrightarrow> r \<noteq> a"
  by (auto simp: is_object_def)

lemma map_object_at_update:
  "list_all (is_object h) rs \<Longrightarrow> h ! a = Array rs'
   \<Longrightarrow> map (object_at (h[a := c])) rs = map (object_at h) rs"
  by (induction rs) (auto simp: object_at_update_array dest: is_object_not_array)

text \<open>Allocating a turn and pushing it on the history appends it to the turn
  sequence and keeps the session.\<close>

lemma push_turn:
  assumes "session_of h s"
  shows "session_of (push (h @ [Object fs]) (history s) (length h)) s"
    and "turns (push (h @ [Object fs]) (history s) (length h)) (history s)
         = turns h (history s) @ [Obj fs]"
proof -
  let ?a = "history s"
  let ?rs = "elements h ?a"
  let ?h2 = "h @ [Object fs]"
  let ?h3 = "?h2[?a := Array (?rs @ [length h])]"
  note s = session_ofD [OF assms]
  have e2: "elements ?h2 ?a = ?rs"
    using s(1) by (rule elements_append)
  have p: "push ?h2 ?a (length h) = ?h3"
    by (simp add: push_def e2)
  have a2: "?h2 ! ?a = Array ?rs"
    using s(1,2) by (simp add: nth_append)
  have o2: "list_all (is_object ?h2) ?rs"
    using s(3) by (auto simp: list_all_iff is_object_append)
  have new: "is_object ?h2 (length h)"
    by (simp add: is_object_def)
  have o3: "list_all (is_object ?h3) (?rs @ [length h])"
    using o2 new a2 by (auto simp: list_all_iff is_object_update_array)
  have a3: "?a < length ?h3" "?h3 ! ?a = Array (?rs @ [length h])"
    using s(1) by simp_all
  show "session_of (push ?h2 ?a (length h)) s"
    unfolding p using a3 o3 by (auto intro: session_ofI)
  have e3: "elements ?h3 ?a = ?rs @ [length h]"
    using a3 by (simp add: elements_def)
  have old: "map (object_at ?h3) ?rs = map (object_at h) ?rs"
    using map_object_at_update [OF o2 a2] s(3) by (simp add: map_object_at_append)
  have "length h \<noteq> ?a" using s(1) by simp
  then have last: "object_at ?h3 (length h) = Obj fs"
    by (simp add: object_at_update_array) (simp add: object_at_def)
  show "turns (push ?h2 ?a (length h)) ?a = turns h ?a @ [Obj fs]"
    unfolding p by (simp add: turns_def e3 old last)
qed

lemma alloc_push_turn:
  assumes "session_of h s"
  shows "session_of (push (snd (alloc h (Object fs))) (history s) (fst (alloc h (Object fs)))) s"
    and "turns (push (snd (alloc h (Object fs))) (history s) (fst (alloc h (Object fs))))
           (history s) = turns h (history s) @ [Obj fs]"
  using push_turn [OF assms, of fs] by (simp_all add: alloc_def)

lemma createChatSession_fresh:
  assumes "createChatSession h prompt = (s, h')"
  shows "session_of h' s" and "turns h' (history s) = []"
    and "systemPrompt s = (if prompt = Undefined then Null else prompt)"
  using assms
  by (auto simp: createChatSession_def alloc_def session_of_def turns_def elements_def)


section \<open>Properties of the chat session\<close>

lemma settle_Inr: "settle out = Inr r \<Longrightarrow> \<exists>st. out = Response st r \<and> response_ok st"
  by (cases out) (auto simp: settle_def wrap_failure_def split: if_splits sum.splits thrown.splits)

lemma ragChat_Inr:
  assumes "ragChat srv sdk log params = (Inr r, log')"
  shows "\<exists>req st. srv log req = Response st r \<and> response_ok st \<and> log' = log @ [req]"
proof -
  from assms obtain endpoint opts where "sdk_request srv sdk log endpoint opts = (Inr r, log')"
    by (auto simp: ragChat_def split: sum.splits if_splits)
  then have "settle (srv log (request_of sdk endpoint opts)) = Inr r"
      and "log' = log @ [request_of sdk endpoint opts]"
    by (auto simp: sdk_request_def Let_def)
  then show ?thesis using settle_Inr by blast
qed

text \<open>The steps of \<^verbatim>\<open>sendMessage\<close> on a session of the store.\<close>

lemma sendMessage_unfold:
  assumes "session_of (store w) s"
  shows "sendMessage srv sdk w s msg =
    (case ragChat srv sdk (calls w)
            (session_params msg (turns (store w) (history s)) (systemPrompt s)) of
       (Inl e, log) \<Rightarrow>
         (Inl e, \<lparr>store = store w @ [Array (elements (store w) (history s))], calls = log\<rparr>)
     | (Inr response, log) \<Rightarrow>
         (case get_prop response ''reply'' of
            Inl e \<Rightarrow>
              (Inl e,
               \<lparr>store = push (store w @ [Array (elements (store w) (history s))]
                               @ [Object (user_turn msg)])
                          (history s) (Suc (length (store w))),
                calls = log\<rparr>)
          | Inr reply \<Rightarrow>
              (Inr response,
               \<lparr>store =
                  push (push (store w @ [Array (elements (store w) (history s))]
                                @ [Object (user_turn msg)])
                          (history s) (Suc (length (store w)))
                        @ [Object (assistant_turn reply)])
                    (history s) (Suc (Suc (length (store w)))),
                calls = log\<rparr>)))"
  using spread_session [OF assms]
  by (simp add: sendMessage_def alloc_def Let_def push_def split: prod.splits sum.splits)

lemma sendMessage_rejected:
  assumes s: "session_of (store w) s"
    and r: "ragChat srv sdk (calls w)
              (session_params msg (turns (store w) (history s)) (systemPrompt s)) = (Inl e, log)"
  shows "\<exists>w'. sendMessage srv sdk w s msg = (Inl e, w') \<and> calls w' = log
      \<and> session_of (store w') s
      \<and> turns (store w') (history s) = turns (store w) (history s)"
  using session_of_append [OF s, of "[Array (elements (store w) (history s))]"]
  by (simp add: sendMessage_unfold [OF s] r)

lemma sendMessage_half:
  assumes s: "session_of (store w) s"
    and r: "ragChat srv sdk (calls w)
              (session_params msg (turns (store w) (history s)) (systemPrompt s))
            = (Inr response, log)"
    and g: "get_prop response ''reply'' = Inl e"
  shows "\<exists>w'. sendMessage srv sdk w s msg = (Inl e, w') \<and> calls w' = log
      \<and> session_of (store w') s
      \<and> turns (store w') (history s) = turns (store w) (history s) @ [Obj (user_turn msg)]"
proof -
  let ?h1 = "store w @ [Array (elements (store w) (history s))]"
  have s1: "session_of ?h1 s" and t1: "turns ?h1 (history s) = turns (store w) (history s)"
    using session_of_append [OF s] by simp_all
  from push_turn [OF s1, of "user_turn msg"] t1 show ?thesis
    by (simp add: sendMessage_unfold [OF s] r g)
qed

lemma sendMessage_replied:
  assumes s: "session_of (store w) s"
    and r: "ragChat srv sdk (calls w)
              (session_params msg (turns (store w) (history s)) (systemPrompt s))
            = (Inr response, log)"
    and g: "get_prop response ''reply'' = Inr reply"
  shows "\<exists>w'. sendMessage srv sdk w s msg = (Inr response, w') \<and> calls w' = log
      \<and> session_of (store w') s
      \<and> turns (store w') (history s)
          = turns (store w) (history s) @ [Obj (user_turn msg), Obj (assistant_turn reply)]"
proof -
  let ?h1 = "store w @ [Array (elements (store w) (history s))]"
  let ?h3 = "push (?h1 @ [Object (user_turn msg)]) (history s) (length ?h1)"
  have s1: "session_of ?h1 s" and t1: "turns ?h1 (history s) = turns (store w) (history s)"
    using session_of_append [OF s] by simp_all
  have s3: "session_of ?h3 s"
    and t3: "turns ?h3 (history s) = turns (store w) (history s) @ [Obj (user_turn msg)]"
    using push_turn [OF s1, of "user_turn msg"] t1 by simp_all
  have l3: "length ?h3 = Suc (Suc (length (store w)))"
    by (simp add: push_def)
  from push_turn [OF s3, of "assistant_turn reply"] t3 l3 show ?thesis
    by (simp add: sendMessage_unfold [OF s] r g)
qed

text \<open>A successful call: the session is kept, two turns are appended.\<close>

lemma sendMessage_Inr:
  assumes s: "session_of (store w) s"
    and ok: "sendMessage srv sdk w s msg = (Inr response, w')"
  shows "session_of (store w') s"
    and "turns (store w') (history s) = turns (store w) (history s) @ exchange msg response"
proof -
  obtain result log where r: "ragChat srv sdk (calls w)
      (session_params msg (turns (store w) (history s)) (systemPrompt s)) = (result, log)"
    by (cases "ragChat srv sdk (calls w)
      (session_params msg (turns (store w) (history s)) (systemPrompt s))")
  from ok r have res: "result = Inr response"
    by (auto simp: sendMessage_unfold [OF s] split: sum.splits)
  from ok r res obtain reply where g: "get_prop response ''reply'' = Inr reply"
    by (auto simp: sendMessage_unfold [OF s] split: sum.splits)
  from sendMessage_replied [OF s r [unfolded res] g] ok
  have "session_of (store w') s \<and> turns (store w') (history s)
          = turns (store w) (history s) @ [Obj (user_turn msg), Obj (assistant_turn reply)]"
    by auto
  then show "session_of (store w') s"
    and "turns (store w') (history s) = turns (store w) (history s) @ exchange msg response"
    by (simp_all add: exchange_def reply_of_def g)
qed

lemma fresh_session_of: "session_of (store fresh_world) fresh_session"
  by (simp add: fresh_world_def fresh_session_def createChatSession_def alloc_def session_of_def)

lemma fresh_turns: "turns (store fresh_world) (history fresh_session) = []"
  by (simp add: fresh_world_def fresh_session_def createChatSession_def alloc_def turns_def
        elements_def)

lemma fresh_session_eq: "fresh_session = \<lparr>history = 0, systemPrompt = Null\<rparr>"
  by (simp add: fresh_session_def createChatSession_def alloc_def)

lemma fresh_world_eq: "fresh_world = \<lparr>store = [Array []], calls = []\<rparr>"
  by (simp add: fresh_world_def createChatSession_def alloc_def)

lemma hi_params:
  "session_params (Str ''hi'') [] Null = Obj [(''message'', Str ''hi''), (''history'', Arr [])]"
  by (simp add: session_params_def)

lemma hi_request:
  "ragChat (mock_backend out) demo_sdk [] (Obj [(''message'', Str ''hi''), (''history'', Arr [])])
   = (settle out,
      [chat_request demo_sdk [(''message'', Str ''hi''), (''history'', Arr [])]])"
  using ragChat_sends [of "[(''message'', Str ''hi''), (''history'', Arr [])]"
      "mock_backend out" demo_sdk "[]"]
  by (simp add: field_def chat_members_def mock_backend_def)

text \<open>
  Claim C1 as stated fails against a backend that answers 200 with the body \<^verbatim>\<open>null\<close>:
  the call throws a \<^verbatim>\<open>TypeError\<close> after the user turn was pushed, and the history of the
  new session holds one turn.
\<close>

theorem sendMessage_null_reply_counterexample:
  "session_of (store fresh_world) fresh_session
   \<and> turns (store fresh_world) (history fresh_session) = []
   \<and> fst (sendMessage null_backend demo_sdk fresh_world fresh_session (Str ''hi''))
     = Inl (NativeError (cannot_read Null ''reply''))
   \<and> turns (store (snd (sendMessage null_backend demo_sdk fresh_world fresh_session (Str ''hi''))))
        (history fresh_session)
     = [Obj [(''role'', Str ''user''), (''text'', Str ''hi'')]]"
proof -
  have r: "ragChat null_backend demo_sdk (calls fresh_world)
      (session_params (Str ''hi'') (turns (store fresh_world) (history fresh_session))
         (systemPrompt fresh_session))
    = (Inr Null, [chat_request demo_sdk [(''message'', Str ''hi''), (''history'', Arr [])]])"
    by (simp add: fresh_turns hi_params null_backend_def hi_request)
      (simp add: fresh_session_eq fresh_world_eq hi_params hi_request settle_def
        response_ok_def)
  have g: "get_prop Null ''reply'' = Inl (NativeError (cannot_read Null ''reply''))"
    by simp
  from sendMessage_half [OF fresh_session_of r g] show ?thesis
    by (auto simp: fresh_session_of fresh_turns user_turn_def)
qed

text \<open>
  Claim C1, as the code has it. For every session, every message and every backend
  that never answers a success status with the body \<^verbatim>\<open>null\<close> (or \<^verbatim>\<open>undefined\<close>),
  \<^verbatim>\<open>sendMessage\<close> either succeeds and the history is the old one followed by a user turn
  with the message and an assistant turn with the reply of the response, in that order,
  or it fails with the very error of \<^verbatim>\<open>ragChat\<close> and the history is as it was.
\<close>

theorem sendMessage_atomic:
  assumes "session_of (store w) s"
    and "\<forall>log req st. response_ok st \<longrightarrow>
           srv log req \<noteq> Response st Null \<and> srv log req \<noteq> Response st Undefined"
  shows "(\<exists>response w'. sendMessage srv sdk w s msg = (Inr response, w')
            \<and> turns (store w') (history s)
                = turns (store w) (history s)
                  @ [Obj [(''role'', Str ''user''), (''text'', msg)],
                     Obj [(''role'', Str ''assistant''), (''text'', reply_of response)]])
       \<or> (\<exists>e w'. sendMessage srv sdk w s msg = (Inl e, w')
            \<and> fst (ragChat srv sdk (calls w)
                     (session_params msg (turns (store w) (history s)) (systemPrompt s)))
                = Inl e
            \<and> turns (store w') (history s) = turns (store w) (history s))"
proof -
  let ?call = "ragChat srv sdk (calls w)
      (session_params msg (turns (store w) (history s)) (systemPrompt s))"
  obtain result log where r: "?call = (result, log)"
    by (cases ?call)
  show ?thesis
  proof (cases result)
    case (Inl e)
    with sendMessage_rejected [OF assms(1), of srv sdk msg e log] r show ?thesis
      by auto
  next
    case (Inr response)
    with r have call: "?call = (Inr response, log)" by simp
    from ragChat_Inr [OF call] assms(2)
    have "response \<noteq> Null" and "response \<noteq> Undefined"
      by auto
    then obtain reply where g: "get_prop response ''reply'' = Inr reply"
      using get_prop_defined by blast
    from sendMessage_replied [OF assms(1) call g] g show ?thesis
      by (auto simp: user_turn_def assistant_turn_def reply_of_def)
  qed
qed

text \<open>Claim C1 on a new session and the backend that replies \<^verbatim>\<open>hello\<close>.\<close>

theorem sendMessage_atomic_witness:
  "(\<exists>response w'.
       sendMessage hello_backend demo_sdk fresh_world fresh_session (Str ''hi'') = (Inr response, w')
       \<and> turns (store w') (history fresh_session)
           = turns (store fresh_world) (history fresh_session)
             @ [Obj [(''role'', Str ''user''), (''text'', Str ''hi'')],
                Obj [(''role'', Str ''assistant''), (''text'', reply_of response)]])
   \<or> (\<exists>e w'.
       sendMessage hello_backend demo_sdk fresh_world fresh_session (Str ''hi'') = (Inl e, w')
       \<and> fst (ragChat hello_backend demo_sdk (calls fresh_world)
                (session_params (Str ''hi'') (turns (store fresh_world) (history fresh_session))
                   (systemPrompt fresh_session)))
           = Inl e
       \<and> turns (store w') (history fresh_session)
           = turns (store fresh_world) (history fresh_session))"
proof -
  have never_null: "\<forall>log req st. response_ok st \<longrightarrow>
      hello_backend log req \<noteq> Response st Null \<and> hello_backend log req \<noteq> Response st Undefined"
    by (simp add: hello_backend_def mock_backend_def)
  show ?thesis
    by (rule sendMessage_atomic [OF fresh_session_of never_null])
qed

text \<open>The two halves of a call, run without anything in between, are the call.\<close>

lemma sendMessage_phases:
  "sendMessage srv sdk w s msg =
     (case sendMessage_start srv sdk w s msg of (p, w1) \<Rightarrow> sendMessage_resume w1 s p)"
  by (simp add: sendMessage_def sendMessage_start_def sendMessage_resume_def Let_def
        split: prod.splits sum.splits)

text \<open>One call against a backend that never answers a success status with the body
  \<^verbatim>\<open>null\<close>: the session is kept and the turns of the call are appended.\<close>

lemma sendMessage_step:
  assumes s: "session_of (store w) s"
    and never_null: "\<forall>log req st. response_ok st \<longrightarrow>
           srv log req \<noteq> Response st Null \<and> srv log req \<noteq> Response st Undefined"
    and run: "sendMessage srv sdk w s msg = (r, w')"
  shows "session_of (store w') s"
    and "turns (store w') (history s) = turns (store w) (history s) @ exchange_of msg r"
proof -
  let ?call = "ragChat srv sdk (calls w)
      (session_params msg (turns (store w) (history s)) (systemPrompt s))"
  obtain result log where c: "?call = (result, log)"
    by (cases ?call)
  have "session_of (store w') s
      \<and> turns (store w') (history s) = turns (store w) (history s) @ exchange_of msg r"
  proof (cases result)
    case (Inl e)
    with sendMessage_rejected [OF s, of srv sdk msg e log] c run show ?thesis
      by (auto simp: exchange_of_def)
  next
    case (Inr response)
    with c have call: "?call = (Inr response, log)" by simp
    from ragChat_Inr [OF call] never_null
    have "response \<noteq> Null" and "response \<noteq> Undefined"
      by auto
    then obtain reply where g: "get_prop response ''reply'' = Inr reply"
      using get_prop_defined by blast
    from sendMessage_replied [OF s call g] run g show ?thesis
      by (auto simp: exchange_of_def exchange_def reply_of_def)
  qed
  then show "session_of (store w') s"
    and "turns (store w') (history s) = turns (store w) (history s) @ exchange_of msg r"
    by simp_all
qed

text \<open>A run of calls appends the exchanges of its successful calls, in call order.\<close>

lemma send_each_turns:
  assumes never_null: "\<forall>log req st. response_ok st \<longrightarrow>
           srv log req \<noteq> Response st Null \<and> srv log req \<noteq> Response st Undefined"
  shows "session_of (store w) s \<Longrightarrow> send_each srv sdk w s ms = (rs, w')
   \<Longrightarrow> session_of (store w') s \<and> length rs = length ms
       \<and> turns (store w') (history s)
           = turns (store w) (history s) @ concat (map2 exchange_of ms rs)"
proof (induction ms arbitrary: w rs)
  case Nil
  then show ?case by simp
next
  case (Cons m ms)
  obtain r w1 where first: "sendMessage srv sdk w s m = (r, w1)"
    by (cases "sendMessage srv sdk w s m")
  from Cons.prems(2) first obtain rs' where rest: "send_each srv sdk w1 s ms = (rs', w')"
    and rs: "rs = r # rs'"
    by (auto split: prod.splits)
  note one = sendMessage_step [OF Cons.prems(1) never_null first]
  from Cons.IH [OF one(1) rest] one(2) rs show ?case
    by simp
qed

lemma roles_of_exchanges:
  "length rs = length ms \<Longrightarrow>
   map role_of (concat (map2 exchange_of ms rs))
     = concat (replicate (succeeded rs) [Str ''user'', Str ''assistant''])"
proof (induction ms arbitrary: rs)
  case Nil
  then show ?case by (simp add: succeeded_def)
next
  case (Cons m ms)
  then obtain r rs' where rs: "rs = r # rs'" "length rs' = length ms"
    by (cases rs) auto
  from Cons.IH [OF rs(2)] rs(1) show ?case
    by (cases r)
      (simp_all add: succeeded_def exchange_of_def exchange_def role_of_def user_turn_def
        assistant_turn_def)
qed

lemma length_exchanges:
  "length rs = length ms \<Longrightarrow> length (concat (map2 exchange_of ms rs)) = 2 * succeeded rs"
proof (induction ms arbitrary: rs)
  case Nil
  then show ?case by (simp add: succeeded_def)
next
  case (Cons m ms)
  then obtain r rs' where rs: "rs = r # rs'" "length rs' = length ms"
    by (cases rs) auto
  from Cons.IH [OF rs(2)] rs(1) show ?case
    by (cases r) (simp_all add: succeeded_def exchange_of_def exchange_def)
qed

text \<open>
  Claim C2, as the code has it. A new session makes the calls for the messages
  \<open>ms\<close> one after the other, each awaited before the next is made, against a backend
  that never answers a success status with the body \<^verbatim>\<open>null\<close>; the calls have the
  results \<open>rs\<close>, of which some may be failures. Then \<^verbatim>\<open>getHistory()\<close> returns an
  array that denotes the exchanges of the successful calls in call order, each a user
  turn followed by an assistant turn; its length is twice the number of successful
  calls and its roles alternate \<^verbatim>\<open>user\<close>, \<^verbatim>\<open>assistant\<close>.
\<close>

theorem history_after_calls:
  assumes "createChatSession h0 prompt = (s, h1)"
    and "\<forall>log req st. response_ok st \<longrightarrow>
           srv log req \<noteq> Response st Null \<and> srv log req \<noteq> Response st Undefined"
    and "send_each srv sdk \<lparr>store = h1, calls = log0\<rparr> s ms = (rs, w)"
    and "getHistory (store w) s = (a, h)"
  shows "turns h a = concat (map2 exchange_of ms rs)
       \<and> length (turns h a) = 2 * succeeded rs
       \<and> map role_of (turns h a)
           = concat (replicate (succeeded rs) [Str ''user'', Str ''assistant''])"
proof -
  note fresh = createChatSession_fresh [OF assms(1)]
  from send_each_turns [OF assms(2), of "\<lparr>store = h1, calls = log0\<rparr>" s sdk ms rs w]
    fresh assms(3)
  have kept: "session_of (store w) s" and len: "length rs = length ms"
    and t: "turns (store w) (history s) = concat (map2 exchange_of ms rs)"
    by simp_all
  from spread_session [OF kept] assms(4)
  have "turns h a = turns (store w) (history s)"
    by (auto simp: getHistory_def)
  with t have "turns h a = concat (map2 exchange_of ms rs)" by simp
  with len show ?thesis
    by (simp add: roles_of_exchanges length_exchanges)
qed

text \<open>Claim C2 on three calls of a new session against the backend that replies
  \<^verbatim>\<open>hello\<close>; the second call, with the empty message, fails.\<close>

theorem history_after_calls_witness:
  "\<exists>rs w a h.
     createChatSession [] Undefined = (fresh_session, store fresh_world)
     \<and> send_each hello_backend demo_sdk fresh_world fresh_session
         [Str ''hi'', Str '''', Str ''again''] = (rs, w)
     \<and> getHistory (store w) fresh_session = (a, h)
     \<and> map isl rs = [False, True, False]
     \<and> turns h a = concat (map2 exchange_of [Str ''hi'', Str '''', Str ''again''] rs)
     \<and> length (turns h a) = 4
     \<and> map role_of (turns h a)
         = [Str ''user'', Str ''assistant'', Str ''user'', Str ''assistant'']"
proof -
  let ?ms = "[Str ''hi'', Str '''', Str ''again'']"
  let ?run = "send_each hello_backend demo_sdk fresh_world fresh_session ?ms"
  have created: "createChatSession [] Undefined = (fresh_session, store fresh_world)"
    by (simp add: fresh_session_def fresh_world_def)
  have never_null: "\<forall>log req st. response_ok st \<longrightarrow>
      hello_backend log req \<noteq> Response st Null \<and> hello_backend log req \<noteq> Response st Undefined"
    by (simp add: hello_backend_def mock_backend_def)
  obtain rs w where run: "?run = (rs, w)"
    by (cases ?run)
  then have run': "send_each hello_backend demo_sdk \<lparr>store = store fresh_world, calls = []\<rparr>
      fresh_session ?ms = (rs, w)"
    by (simp add: fresh_world_def)
  have "map isl (fst ?run) = [False, True, False]"
    by code_simp
  with run have results: "map isl rs = [False, True, False]"
    by simp
  then have two: "succeeded rs = 2"
    by (auto simp: succeeded_def)
  obtain a h where got: "getHistory (store w) fresh_session = (a, h)"
    by (cases "getHistory (store w) fresh_session")
  note after = history_after_calls [OF created never_null run' got]
  from after have "length (turns h a) = 2 * succeeded rs"
    by blast
  with two have len: "length (turns h a) = 4"
    by simp
  from after have "map role_of (turns h a)
      = concat (replicate (succeeded rs) [Str ''user'', Str ''assistant''])"
    by blast
  with two have roles: "map role_of (turns h a)
      = [Str ''user'', Str ''assistant'', Str ''user'', Str ''assistant'']"
    by (simp add: numeral_2_eq_2)
  from after have pairs: "turns h a = concat (map2 exchange_of ?ms rs)"
    by blast
  show ?thesis
    by (intro exI conjI) (rule created run got results pairs len roles)+
qed

text \<open>
  Claim C2 as stated fails. After a first call that fails on a 200 response with the
  body \<^verbatim>\<open>null\<close>, one successful call leaves three turns: user, user, assistant. And
  when two calls are in flight together and the response of the second arrives first,
  both succeed and the pair of the second call comes before the pair of the first.
\<close>

theorem history_after_failed_call_counterexample:
  "map isl (fst (send_each null_then_hello demo_sdk fresh_world fresh_session
                   [Str ''hi'', Str ''again''])) = [True, False]
   \<and> succeeded (fst (send_each null_then_hello demo_sdk fresh_world fresh_session
                        [Str ''hi'', Str ''again''])) = 1
   \<and> turns (snd (getHistory
                   (store (snd (send_each null_then_hello demo_sdk fresh_world fresh_session
                                  [Str ''hi'', Str ''again''])))
                   fresh_session))
        (fst (getHistory
                   (store (snd (send_each null_then_hello demo_sdk fresh_world fresh_session
                                  [Str ''hi'', Str ''again''])))
                   fresh_session))
     = [Obj [(''role'', Str ''user''), (''text'', Str ''hi'')],
        Obj [(''role'', Str ''user''), (''text'', Str ''again'')],
        Obj [(''role'', Str ''assistant''), (''text'', Str ''hello'')]]
   \<and> fst overlapped = Inr (Obj [(''reply'', Str ''hello'')])
   \<and> fst (snd overlapped) = Inr (Obj [(''reply'', Str ''hello'')])
   \<and> turns (store (snd (snd overlapped))) (history fresh_session)
     = [Obj [(''role'', Str ''user''), (''text'', Str ''second'')],
        Obj [(''role'', Str ''assistant''), (''text'', Str ''hello'')],
        Obj [(''role'', Str ''user''), (''text'', Str ''first'')],
        Obj [(''role'', Str ''assistant''), (''text'', Str ''hello'')]]"
  by code_simp

lemma overwrite_other_array:
  assumes s: "session_of h s" and a: "a \<noteq> history s" "h ! a = Array rs0"
  shows "turns (overwrite_array h a rs) (history s) = turns h (history s)"
    and "elements (overwrite_array h a rs) (history s) = elements h (history s)"
proof -
  note d = session_ofD [OF s]
  show e: "elements (overwrite_array h a rs) (history s) = elements h (history s)"
    using a(1) by (simp add: overwrite_array_def elements_def)
  have "map (object_at (h[a := Array rs])) (elements h (history s))
      = map (object_at h) (elements h (history s))"
    using map_object_at_update [OF d(3) a(2)] .
  then show "turns (overwrite_array h a rs) (history s) = turns h (history s)"
    by (simp add: turns_def e) (simp add: overwrite_array_def)
qed

text \<open>
  Claim C4, as the code has it. \<^verbatim>\<open>getHistory()\<close> returns a new array, at an address
  that was not allocated before and is not the one of the history, with the same
  elements: the addresses of the session's own turn objects. The store is extended by
  this array and otherwise unchanged (\<^verbatim>\<open>sendMessage\<close> makes its copy the same way).
  Whatever the caller then makes the returned array hold, the turn sequence of the
  session is as it was.
\<close>

theorem getHistory_copy:
  assumes "session_of h s" and "getHistory h s = (a, h')"
  shows "a = length h \<and> a \<noteq> history s
       \<and> spread h (history s) = (a, h')
       \<and> h' = h @ [Array (elements h (history s))]
       \<and> elements h' a = elements h (history s)
       \<and> turns h' a = turns h (history s)
       \<and> turns h' (history s) = turns h (history s)
       \<and> (\<forall>rs. turns (overwrite_array h' a rs) (history s) = turns h (history s))"
proof -
  note d = session_ofD [OF assms(1)]
  note c = spread_session [OF assms(1)]
  from assms(2) c(1) have a: "a = length h" and h': "h' = h @ [Array (elements h (history s))]"
    by (simp_all add: getHistory_def)
  have other: "a \<noteq> history s" using a d(1) by simp
  have kept: "session_of h' s" and same: "turns h' (history s) = turns h (history s)"
    unfolding h' using session_of_append [OF assms(1)] by simp_all
  have cell: "h' ! a = Array (elements h (history s))"
    by (simp add: a h')
  have "\<forall>rs. turns (overwrite_array h' a rs) (history s) = turns h (history s)"
    using overwrite_other_array(1) [OF kept other cell] same by simp
  with a other h' c(2,3) same assms(2) show ?thesis
    by (simp add: getHistory_def)
qed

text \<open>Claim C4 on the session after one exchange.\<close>

theorem getHistory_copy_witness:
  "session_of (store after_hello) fresh_session
   \<and> fst (getHistory (store after_hello) fresh_session) = length (store after_hello)
   \<and> fst (getHistory (store after_hello) fresh_session) \<noteq> history fresh_session
   \<and> turns (snd (getHistory (store after_hello) fresh_session))
         (fst (getHistory (store after_hello) fresh_session))
       = turns (store after_hello) (history fresh_session)
   \<and> (\<forall>rs. turns (overwrite_array (snd (getHistory (store after_hello) fresh_session))
                      (fst (getHistory (store after_hello) fresh_session)) rs)
              (history fresh_session)
         = turns (store after_hello) (history fresh_session))"
proof -
  have session: "session_of (store after_hello) fresh_session"
    by code_simp
  have got: "getHistory (store after_hello) fresh_session
      = (fst (getHistory (store after_hello) fresh_session),
         snd (getHistory (store after_hello) fresh_session))"
    by simp
  from getHistory_copy [OF session got] session show ?thesis
    by blast
qed

text \<open>
  Claim C4 as stated fails: after one exchange, assigning the \<^verbatim>\<open>text\<close> property of the
  first element of the array that \<^verbatim>\<open>getHistory()\<close> returned changes the first turn of the
  session's own history.
\<close>

theorem getHistory_shared_turns_counterexample:
  "turns (store after_hello) (history fresh_session)
     = [Obj [(''role'', Str ''user''), (''text'', Str ''hi'')],
        Obj [(''role'', Str ''assistant''), (''text'', Str ''hello'')]]
   \<and> fst (getHistory (store after_hello) fresh_session) \<noteq> history fresh_session
   \<and> turns (assign_prop (snd (getHistory (store after_hello) fresh_session))
              (elements (snd (getHistory (store after_hello) fresh_session))
                 (fst (getHistory (store after_hello) fresh_session)) ! 0)
              ''text'' (Str ''tampered''))
        (history fresh_session)
     = [Obj [(''role'', Str ''user''), (''text'', Str ''tampered'')],
        Obj [(''role'', Str ''assistant''), (''text'', Str ''hello'')]]"
  by code_simp

lemma sendMessage_calls:
  assumes "session_of (store w) s"
  shows "calls (snd (sendMessage srv sdk w s msg))
     = snd (ragChat srv sdk (calls w)
              (session_params msg (turns (store w) (history s)) (systemPrompt s)))"
  by (simp add: sendMessage_unfold [OF assms] split: prod.splits sum.splits)

lemma session_params_request:
  assumes "truthy msg"
  shows "snd (ragChat srv sdk log (session_params msg snapshot prompt))
     = log @ [chat_request sdk
         ((''message'', JSON_value msg) # (''history'', Arr (JSON_elements snapshot))
          # (if truthy prompt then [(''system_prompt'', JSON_value prompt)] else []))]"
proof -
  let ?fs = "[(''message'', msg), (''history'', Arr snapshot)]
      @ (if truthy prompt then [(''system_prompt'', prompt)] else [])"
  have f: "field ?fs ''message'' = msg" "field ?fs ''history'' = Arr snapshot"
    "field ?fs ''system_prompt'' = (if truthy prompt then prompt else Undefined)"
    by (simp_all add: field_def)
  have "truthy (field ?fs ''message'')" using assms by (simp add: field_def)
  from ragChat_sends [OF this, of srv sdk log] show ?thesis
    unfolding session_params_def f by (simp add: chat_members_def)
qed

text \<open>
  Claim C10. Every \<^verbatim>\<open>sendMessage\<close> call with a truthy message issues one chat request
  whose body has a history member, the serialised turn sequence of the session at the
  time of the call; for the first call of a new session this member is the empty
  array, not left out.
\<close>

theorem sendMessage_sends_history:
  "(session_of (store w) s \<and> truthy msg \<longrightarrow>
      calls (snd (sendMessage srv sdk w s msg))
        = calls w @ [chat_request sdk
            ((''message'', JSON_value msg)
             # (''history'', Arr (JSON_elements (turns (store w) (history s))))
             # (if truthy (systemPrompt s)
                then [(''system_prompt'', JSON_value (systemPrompt s))] else []))])
   \<and> (truthy msg \<longrightarrow>
      calls (snd (sendMessage srv sdk
                    \<lparr>store = snd (createChatSession h prompt), calls = log\<rparr>
                    (fst (createChatSession h prompt)) msg))
        = log @ [chat_request sdk
            ((''message'', JSON_value msg) # (''history'', Arr [])
             # (if truthy prompt then [(''system_prompt'', JSON_value prompt)] else []))])"
proof (intro conjI impI)
  assume "session_of (store w) s \<and> truthy msg"
  then show "calls (snd (sendMessage srv sdk w s msg))
        = calls w @ [chat_request sdk
            ((''message'', JSON_value msg)
             # (''history'', Arr (JSON_elements (turns (store w) (history s))))
             # (if truthy (systemPrompt s)
                then [(''system_prompt'', JSON_value (systemPrompt s))] else []))]"
    by (simp add: sendMessage_calls session_params_request)
next
  assume m: "truthy msg"
  obtain s h' where c: "createChatSession h prompt = (s, h')"
    by (cases "createChatSession h prompt")
  note fresh = createChatSession_fresh [OF c]
  have p: "truthy (systemPrompt s) = truthy prompt"
    "truthy prompt \<Longrightarrow> systemPrompt s = prompt"
    using fresh(3) by auto
  have "calls (snd (sendMessage srv sdk \<lparr>store = h', calls = log\<rparr> s msg))
        = log @ [chat_request sdk
            ((''message'', JSON_value msg) # (''history'', Arr [])
             # (if truthy prompt then [(''system_prompt'', JSON_value prompt)] else []))]"
    using fresh(1,2) m p by (simp add: sendMessage_calls session_params_request)
  then show "calls (snd (sendMessage srv sdk
                    \<lparr>store = snd (createChatSession h prompt), calls = log\<rparr>
                    (fst (createChatSession h prompt)) msg))
        = log @ [chat_request sdk
            ((''message'', JSON_value msg) # (''history'', Arr [])
             # (if truthy prompt then [(''system_prompt'', JSON_value prompt)] else []))]"
    by (simp add: c)
qed

text \<open>Claim C10 on the second call of a session and on the first call of a new one.\<close>

theorem sendMessage_sends_history_witness:
  "calls (snd (sendMessage hello_backend demo_sdk after_hello fresh_session (Str ''again'')))
     = calls after_hello @ [chat_request demo_sdk
         [(''message'', Str ''again''),
          (''history'', Arr [Obj [(''role'', Str ''user''), (''text'', Str ''hi'')],
                            Obj [(''role'', Str ''assistant''), (''text'', Str ''hello'')]])]]
   \<and> calls (snd (sendMessage hello_backend demo_sdk fresh_world fresh_session (Str ''hi'')))
     = [chat_request demo_sdk [(''message'', Str ''hi''), (''history'', Arr [])]]"
proof -
  have s: "session_of (store after_hello) fresh_session"
    by code_simp
  have t: "turns (store after_hello) (history fresh_session)
     = [Obj [(''role'', Str ''user''), (''text'', Str ''hi'')],
        Obj [(''role'', Str ''assistant''), (''text'', Str ''hello'')]]"
    by code_simp
  have f: "fresh_world = \<lparr>store = snd (createChatSession [] Undefined), calls = []\<rparr>"
    "fresh_session = fst (createChatSession [] Undefined)"
    by (simp_all add: fresh_world_def fresh_session_def)
  have again: "session_of (store after_hello) fresh_session \<and> truthy (Str ''again'')"
    using s by simp
  have hi: "truthy (Str ''hi'')"
    by simp
  from sendMessage_sends_history [where w = after_hello and s = fresh_session
      and msg = "Str ''again''" and srv = hello_backend and sdk = demo_sdk] again
  have "calls (snd (sendMessage hello_backend demo_sdk after_hello fresh_session (Str ''again'')))
     = calls after_hello @ [chat_request demo_sdk
         ((''message'', JSON_value (Str ''again''))
          # (''history'', Arr (JSON_elements (turns (store after_hello) (history fresh_session))))
          # (if truthy (systemPrompt fresh_session)
             then [(''system_prompt'', JSON_value (systemPrompt fresh_session))] else []))]"
    by blast
  then have first: "calls (snd (sendMessage hello_backend demo_sdk after_hello fresh_session
        (Str ''again'')))
     = calls after_hello @ [chat_request demo_sdk
         [(''message'', Str ''again''),
          (''history'', Arr [Obj [(''role'', Str ''user''), (''text'', Str ''hi'')],
                            Obj [(''role'', Str ''assistant''), (''text'', Str ''hello'')]])]]"
    unfolding t by (simp add: fresh_session_eq)
  from sendMessage_sends_history [where msg = "Str ''hi''" and srv = hello_backend
      and sdk = demo_sdk and h = "[]" and prompt = Undefined and log = "[]"] hi
  have "calls (snd (sendMessage hello_backend demo_sdk
                    \<lparr>store = snd (createChatSession [] Undefined), calls = []\<rparr>
                    (fst (createChatSession [] Undefined)) (Str ''hi'')))
        = [] @ [chat_request demo_sdk
            ((''message'', JSON_value (Str ''hi'')) # (''history'', Arr [])
             # (if truthy Undefined then [(''system_prompt'', JSON_value Undefined)] else []))]"
    by blast
  then have second: "calls (snd (sendMessage hello_backend demo_sdk fresh_world fresh_session
        (Str ''hi'')))
     = [chat_request demo_sdk [(''message'', Str ''hi''), (''history'', Arr [])]]"
    unfolding f [symmetric] by simp
  from first second show ?thesis
    by blast
qed

end
